theory Spec2Isabelle
  imports Main "HOL-Library.Word" "HOL-Library.List_Lexorder"
begin

unbundle bit_operations_syntax

section \<open>The WBWT codec of quick-note (src/lib/wbwt)\<close>

text \<open>
  A JavaScript string is a sequence of UTF-16 code units; the model keeps it as a list of
  naturals, each below 65536. A \<open>Uint8Array\<close> is a list of naturals below 256 and a
  \<open>Uint32Array\<close> a list of naturals below \<open>2 ^ 32\<close>; every store into one writes the
  reduction out. JavaScript numbers hold integers exactly below \<open>2 ^ 53\<close>; the model
  keeps them as \<open>int\<close> or \<open>nat\<close>.

  How long a typed array or a string an engine creates is the engine's own matter: the
  language fixes no length that must succeed, and the constructor of a typed array and
  \<open>String.prototype.repeat\<close> throw a RangeError beyond what the engine creates. These
  limits are parameters of the model (\<open>engine\<close> for typed arrays, \<open>string_ops\<close> for
  strings). They are checked where a typed array is created with a length that was read
  from a frame, and where \<open>repeat\<close> is called with the count that a token spells. An
  array or a string that is as long as data that the program already holds is taken to
  exist, and an engine that runs out of memory is not modelled.
\<close>

type_synonym jsstring = "nat list"
type_synonym bytes = "nat list"

subsection \<open>Character classes of the token patterns\<close>

definition is_upper :: "nat \<Rightarrow> bool" where
  "is_upper c \<longleftrightarrow> 65 \<le> c \<and> c \<le> 90"

definition is_lower :: "nat \<Rightarrow> bool" where
  "is_lower c \<longleftrightarrow> 97 \<le> c \<and> c \<le> 122"

definition is_digit :: "nat \<Rightarrow> bool" where
  "is_digit c \<longleftrightarrow> 48 \<le> c \<and> c \<le> 57"

definition is_alpha :: "nat \<Rightarrow> bool" where
  "is_alpha c \<longleftrightarrow> is_upper c \<or> is_lower c"

definition is_alnum :: "nat \<Rightarrow> bool" where
  "is_alnum c \<longleftrightarrow> is_alpha c \<or> is_digit c"

text \<open>
  The class \<open>\s\<close> of an ECMAScript regular expression: the WhiteSpace and LineTerminator
  code units (tab, LF, VT, FF, CR, space, U+00A0, U+1680, U+2000 to U+200A, U+2028,
  U+2029, U+202F, U+205F, U+3000 and U+FEFF).
\<close>

definition is_space :: "nat \<Rightarrow> bool" where
  "is_space c \<longleftrightarrow>
     (9 \<le> c \<and> c \<le> 13) \<or> c = 32 \<or> c = 160 \<or> c = 5760 \<or> (8192 \<le> c \<and> c \<le> 8202) \<or>
     c = 8232 \<or> c = 8233 \<or> c = 8239 \<or> c = 8287 \<or> c = 12288 \<or> c = 65279"

definition is_other :: "nat \<Rightarrow> bool" where
  "is_other c \<longleftrightarrow> \<not> is_space c \<and> \<not> is_alnum c"

definition is_joiner :: "nat \<Rightarrow> bool" where
  "is_joiner c \<longleftrightarrow> c = 39 \<or> c = 45"

subsection \<open>tokenize\<close>

text \<open>
  \<open>TOKEN_PATTERN = /[A-Za-z0-9]+(?:['-][A-Za-z0-9]+)*|[^\sA-Za-z0-9]+|\s+/g\<close>.
  \<open>word_groups\<close> is the greedy group \<open>(?:['-][A-Za-z0-9]+)*\<close>: it returns what the group
  consumes and the remaining input.
\<close>

function word_groups :: "jsstring \<Rightarrow> jsstring \<times> jsstring" where
  "word_groups [] = ([], [])"
| "word_groups [c] = ([], [c])"
| "word_groups (c # d # rest) =
     (if is_joiner c \<and> is_alnum d then
        (case word_groups (dropWhile is_alnum (d # rest)) of
           (g, r) \<Rightarrow> (c # takeWhile is_alnum (d # rest) @ g, r))
      else ([], c # d # rest))"
  by pat_completeness auto
termination
proof (relation "measure length", goal_cases)
  case 1
  show ?case by simp
next
  case (2 c d rest)
  have "length (dropWhile is_alnum rest) \<le> length rest"
    by (rule length_dropWhile_le)
  then show ?case using 2 by simp
qed

lemma word_groups_concat: "fst (word_groups xs) @ snd (word_groups xs) = xs"
  by (induction xs rule: word_groups.induct) (auto split: prod.splits)

lemma word_groups_length: "length (snd (word_groups xs)) \<le> length xs"
proof -
  have "length (fst (word_groups xs) @ snd (word_groups xs)) = length xs"
    by (simp only: word_groups_concat)
  then show ?thesis by simp
qed

text \<open>
  \<open>text.match(TOKEN_PATTERN)\<close> with the \<open>g\<close> flag: the successive matches from the left.
  Every code unit starts one of the three alternatives, so no input is skipped.
\<close>

function match_tokens :: "jsstring \<Rightarrow> jsstring list" where
  "match_tokens [] = []"
| "match_tokens (c # cs) =
     (if is_alnum c then
        (takeWhile is_alnum (c # cs) @ fst (word_groups (dropWhile is_alnum (c # cs))))
          # match_tokens (snd (word_groups (dropWhile is_alnum (c # cs))))
      else if \<not> is_space c then
        takeWhile is_other (c # cs) # match_tokens (dropWhile is_other (c # cs))
      else
        takeWhile is_space (c # cs) # match_tokens (dropWhile is_space (c # cs)))"
  by pat_completeness auto
termination
proof (relation "measure length", goal_cases)
  case 1
  show ?case by simp
next
  case (2 c cs)
  have "length (snd (word_groups (dropWhile is_alnum cs))) \<le> length (dropWhile is_alnum cs)"
    by (rule word_groups_length)
  also have "\<dots> \<le> length cs" by (rule length_dropWhile_le)
  finally show ?case using 2 by simp
next
  case (3 c cs)
  then show ?case by (simp add: is_other_def le_imp_less_Suc length_dropWhile_le)
next
  case (4 c cs)
  then show ?case by (simp add: le_imp_less_Suc length_dropWhile_le)
qed

definition tokenize :: "jsstring \<Rightarrow> jsstring list" where
  "tokenize text = (if text = [] then [] else match_tokens text)"

subsection \<open>Control markers and the patterns of normalizeTokens\<close>

definition CONTROL_PREFIX :: nat where
  "CONTROL_PREFIX = 31"

definition TOKEN_WS_SPACE :: jsstring where
  "TOKEN_WS_SPACE = [CONTROL_PREFIX, 115]"

definition TOKEN_WS_NEWLINE :: jsstring where
  "TOKEN_WS_NEWLINE = [CONTROL_PREFIX, 110]"

definition TOKEN_WS_TAB :: jsstring where
  "TOKEN_WS_TAB = [CONTROL_PREFIX, 116]"

definition TOKEN_NUM :: jsstring where
  "TOKEN_NUM = [CONTROL_PREFIX, 100]"

definition TOKEN_CASE_UPPER :: jsstring where
  "TOKEN_CASE_UPPER = [CONTROL_PREFIX, 117]"

definition TOKEN_CASE_TITLE :: jsstring where
  "TOKEN_CASE_TITLE = [CONTROL_PREFIX, 99]"

definition TOKEN_ESCAPE :: jsstring where
  "TOKEN_ESCAPE = [CONTROL_PREFIX, 101]"

definition SENTINEL_ID :: nat where
  "SENTINEL_ID = 0"

text \<open>\<open>token.startsWith(CONTROL_PREFIX)\<close>\<close>

definition startsWith_prefix :: "jsstring \<Rightarrow> bool" where
  "startsWith_prefix token = (case token of [] \<Rightarrow> False | c # _ \<Rightarrow> c = CONTROL_PREFIX)"

text \<open>\<open>/^ +$/\<close>, \<open>/^\n+$/\<close>, \<open>/^\t+$/\<close> and \<open>/^\d+$/\<close>: a non-empty run of one class.\<close>

definition SPACE_PATTERN :: "jsstring \<Rightarrow> bool" where
  "SPACE_PATTERN token \<longleftrightarrow> token \<noteq> [] \<and> list_all (\<lambda>c. c = 32) token"

definition NEWLINE_PATTERN :: "jsstring \<Rightarrow> bool" where
  "NEWLINE_PATTERN token \<longleftrightarrow> token \<noteq> [] \<and> list_all (\<lambda>c. c = 10) token"

definition TAB_PATTERN :: "jsstring \<Rightarrow> bool" where
  "TAB_PATTERN token \<longleftrightarrow> token \<noteq> [] \<and> list_all (\<lambda>c. c = 9) token"

definition NUMBER_PATTERN :: "jsstring \<Rightarrow> bool" where
  "NUMBER_PATTERN token \<longleftrightarrow> token \<noteq> [] \<and> list_all is_digit token"

text \<open>
  \<open>WORD_PATTERN = /^[A-Za-z]+(?:['-][A-Za-z]+)*$/\<close>; \<open>word_pattern_groups\<close> matches
  \<open>(?:['-][A-Za-z]+)*$\<close> on what follows the first run of letters.
\<close>

function word_pattern_groups :: "jsstring \<Rightarrow> bool" where
  "word_pattern_groups [] = True"
| "word_pattern_groups [c] = False"
| "word_pattern_groups (c # d # rest) =
     (is_joiner c \<and> is_alpha d \<and> word_pattern_groups (dropWhile is_alpha (d # rest)))"
  by pat_completeness auto
termination
proof (relation "measure length", goal_cases)
  case 1
  show ?case by simp
next
  case (2 c d rest)
  have "length (dropWhile is_alpha (d # rest)) \<le> length (d # rest)"
    by (rule length_dropWhile_le)
  then show ?case by simp
qed

definition WORD_PATTERN :: "jsstring \<Rightarrow> bool" where
  "WORD_PATTERN token \<longleftrightarrow>
     (case token of [] \<Rightarrow> False
      | c # _ \<Rightarrow> is_alpha c \<and> word_pattern_groups (dropWhile is_alpha token))"

text \<open>
  \<open>toLowerCase\<close> and \<open>toUpperCase\<close> on a string of ASCII code units: the letters A to Z
  and a to z change, nothing else does. A token that matches \<open>WORD_PATTERN\<close> is such a
  string (letters, apostrophes and hyphens), and \<open>normalizeTokens\<close> changes the case of
  such tokens only.
\<close>

definition is_ascii :: "jsstring \<Rightarrow> bool" where
  "is_ascii s = list_all (\<lambda>c. c < 128) s"

definition toLowerCase_ascii :: "jsstring \<Rightarrow> jsstring" where
  "toLowerCase_ascii s = map (\<lambda>c. if is_upper c then c + 32 else c) s"

definition toUpperCase_ascii :: "jsstring \<Rightarrow> jsstring" where
  "toUpperCase_ascii s = map (\<lambda>c. if is_lower c then c - 32 else c) s"

text \<open>\<open>token[0].toUpperCase() + token.slice(1).toLowerCase()\<close>, for a non-empty token.\<close>

definition titleCase_ascii :: "jsstring \<Rightarrow> jsstring" where
  "titleCase_ascii token = toUpperCase_ascii (take 1 token) @ toLowerCase_ascii (drop 1 token)"

text \<open>\<open>n.toString(36)\<close> for a non-negative integer: digits 0 to 9, then a to z.\<close>

definition digit36 :: "nat \<Rightarrow> nat" where
  "digit36 d = (if d < 10 then 48 + d else 87 + d)"

function toString36 :: "nat \<Rightarrow> jsstring" where
  "toString36 n = (if n < 36 then [digit36 n] else toString36 (n div 36) @ [digit36 (n mod 36)])"
  by pat_completeness auto
termination
  by (relation "measure id") auto

declare toString36.simps [simp del]

subsection \<open>normalizeTokens\<close>

text \<open>What one iteration of the loop pushes onto \<open>normalized\<close>.\<close>

definition normalizeToken :: "jsstring \<Rightarrow> jsstring list" where
  "normalizeToken token =
     (if startsWith_prefix token then [TOKEN_ESCAPE, token]
      else if SPACE_PATTERN token then [TOKEN_WS_SPACE, toString36 (length token)]
      else if NEWLINE_PATTERN token then [TOKEN_WS_NEWLINE, toString36 (length token)]
      else if TAB_PATTERN token then [TOKEN_WS_TAB, toString36 (length token)]
      else if NUMBER_PATTERN token then [TOKEN_NUM, token]
      else if WORD_PATTERN token then
        (let lower = toLowerCase_ascii token
         in if token = lower then [lower]
            else if token = toUpperCase_ascii token then [TOKEN_CASE_UPPER, lower]
            else if token = titleCase_ascii token then [TOKEN_CASE_TITLE, lower]
            else [token])
      else [token])"

fun normalizeTokens :: "jsstring list \<Rightarrow> jsstring list" where
  "normalizeTokens [] = []"
| "normalizeTokens (token # tokens) = normalizeToken token @ normalizeTokens tokens"

subsection \<open>Typed arrays\<close>

text \<open>
  Reading a typed array out of range gives \<open>undefined\<close> (\<open>None\<close>); a store at an index
  that is out of range or not a number is ignored; a stored \<open>undefined\<close> becomes 0 and a
  stored number is reduced modulo \<open>2 ^ 32\<close>.
\<close>

definition at :: "'a list \<Rightarrow> nat \<Rightarrow> 'a option" where
  "at xs i = (if i < length xs then Some (xs ! i) else None)"

definition at_opt :: "'a list \<Rightarrow> nat option \<Rightarrow> 'a option" where
  "at_opt xs i = (case i of None \<Rightarrow> None | Some j \<Rightarrow> at xs j)"

definition to_u32 :: "nat option \<Rightarrow> nat" where
  "to_u32 v = (case v of None \<Rightarrow> 0 | Some n \<Rightarrow> n mod 2 ^ 32)"

definition put :: "nat list \<Rightarrow> nat option \<Rightarrow> nat option \<Rightarrow> nat list" where
  "put xs i v =
     (case i of None \<Rightarrow> xs
      | Some j \<Rightarrow> if j < length xs then xs[j := to_u32 v] else xs)"

text \<open>\<open>xs[i]++\<close> on a \<open>Uint32Array\<close>.\<close>

definition incr :: "nat list \<Rightarrow> nat option \<Rightarrow> nat list" where
  "incr xs i = (case at_opt xs i of None \<Rightarrow> xs | Some n \<Rightarrow> put xs i (Some (n + 1)))"

subsection \<open>The engine\<close>

datatype js_error = TypeError | RangeError | InvalidHeader | UnsupportedVersion

text \<open>
  \<open>new Uint8Array(n)\<close> and \<open>new Uint32Array(n)\<close> return \<open>n\<close> zeros, or throw a RangeError
  when the engine does not create a typed array of \<open>n\<close> elements. The largest lengths
  that it creates are the two fields of \<open>engine\<close>.
\<close>

record engine =
  max_uint8_length :: nat
  max_uint32_length :: nat

definition new_Uint8Array :: "engine \<Rightarrow> nat \<Rightarrow> js_error + bytes" where
  "new_Uint8Array e n = (if max_uint8_length e < n then Inl RangeError else Inr (replicate n 0))"

definition new_Uint32Array :: "engine \<Rightarrow> nat \<Rightarrow> js_error + nat list" where
  "new_Uint32Array e n = (if max_uint32_length e < n then Inl RangeError else Inr (replicate n 0))"

text \<open>
  An engine for the examples: its array buffers hold up to \<open>2 ^ 32 - 1\<close> bytes, which is
  as many elements of a \<open>Uint8Array\<close> and \<open>2 ^ 30 - 1\<close> elements of a \<open>Uint32Array\<close>.
\<close>

definition buffers_below_4GiB :: engine where
  "buffers_below_4GiB = \<lparr>max_uint8_length = 4294967295, max_uint32_length = 1073741823\<rparr>"

subsection \<open>tokensToIds\<close>

text \<open>
  The first loop: \<open>tokenToId\<close> is the \<open>Map\<close>, \<open>dictionary\<close> the tokens in first-seen
  order. An id never exceeds the number of tokens read so far, which is below \<open>2 ^ 32\<close>
  (the length of an array), so the \<open>Uint32Array\<close> keeps it as it is.
\<close>

fun assign_first_seen ::
  "jsstring list \<Rightarrow> jsstring list \<Rightarrow> (jsstring \<rightharpoonup> nat) \<Rightarrow> nat list \<Rightarrow> nat list \<times> jsstring list"
where
  "assign_first_seen [] dict tokenToId ids = (ids, dict)"
| "assign_first_seen (token # tokens) dict tokenToId ids =
     (case tokenToId token of
        Some i \<Rightarrow> assign_first_seen tokens dict tokenToId (ids @ [i])
      | None \<Rightarrow>
          assign_first_seen tokens (dict @ [token])
            (tokenToId(token \<mapsto> length dict + 1)) (ids @ [length dict + 1]))"

text \<open>
  The second loop, over \<open>sortedDictionary\<close>: \<open>tokenToNewId.set(sortedDictionary[i], i + 1)\<close>.
\<close>

fun new_ids :: "jsstring list \<Rightarrow> nat \<Rightarrow> (jsstring \<rightharpoonup> nat) \<Rightarrow> (jsstring \<rightharpoonup> nat)" where
  "new_ids [] i tokenToNewId = tokenToNewId"
| "new_ids (token # tokens) i tokenToNewId = new_ids tokens (i + 1) (tokenToNewId(token \<mapsto> i + 1))"

text \<open>
  \<open>[...dictionary].sort()\<close> has no comparator: the elements are compared as strings, by
  their UTF-16 code units, which is the lexicographic order of the lists of code units.
\<close>

definition tokensToIds :: "jsstring list \<Rightarrow> nat list \<times> jsstring list" where
  "tokensToIds tokens =
     (case assign_first_seen tokens [] Map.empty [] of
        (ids, dict) \<Rightarrow>
          let sortedDictionary = sort dict;
              tokenToNewId = new_ids sortedDictionary 0 Map.empty;
              oldToNew = 0 # map (\<lambda>token. to_u32 (tokenToNewId token)) dict
          in (map (\<lambda>i. to_u32 (at oldToNew i)) ids, sortedDictionary))"

subsection \<open>renderTokens\<close>

text \<open>
  The renderer changes the case of dictionary entries, which hold any code units. Beyond
  ASCII, \<open>toUpperCase\<close> and \<open>toLowerCase\<close> follow the case tables of Unicode, which the
  platform brings: the two functions of the platform are parameters of the model, and so
  is the length of the longest string that the engine creates.
\<close>

record string_ops =
  max_string_length :: nat
  upper_case :: "jsstring \<Rightarrow> jsstring"
  lower_case :: "jsstring \<Rightarrow> jsstring"

definition toLowerCase :: "string_ops \<Rightarrow> jsstring \<Rightarrow> jsstring" where
  "toLowerCase ops s = (if is_ascii s then toLowerCase_ascii s else lower_case ops s)"

definition toUpperCase :: "string_ops \<Rightarrow> jsstring \<Rightarrow> jsstring" where
  "toUpperCase ops s = (if is_ascii s then toUpperCase_ascii s else upper_case ops s)"

definition titleCase :: "string_ops \<Rightarrow> jsstring \<Rightarrow> jsstring" where
  "titleCase ops token = toUpperCase ops (take 1 token) @ toLowerCase ops (drop 1 token)"

datatype pending_case = Upper | Title

datatype pending_mode = Space | Newline | Tab | Number | Escape

text \<open>
  \<open>parseInt(token, 36)\<close>: leading white space is skipped, one sign is read, then the
  longest run of digits of radix 36; no digit gives \<open>NaN\<close> (\<open>None\<close>). An \<open>undefined\<close>
  token is read through its string, \<open>"undefined"\<close>.
\<close>

definition digit36_value :: "nat \<Rightarrow> nat option" where
  "digit36_value c =
     (if is_digit c then Some (c - 48)
      else if is_lower c then Some (c - 87)
      else if is_upper c then Some (c - 55)
      else None)"

definition strip_sign :: "jsstring \<Rightarrow> int \<times> jsstring" where
  "strip_sign s =
     (case s of [] \<Rightarrow> (1, [])
      | c # rest \<Rightarrow> if c = 45 then (- 1, rest) else if c = 43 then (1, rest) else (1, s))"

definition parseInt36 :: "jsstring option \<Rightarrow> int option" where
  "parseInt36 token =
     (let s = (case token of None \<Rightarrow> [117, 110, 100, 101, 102, 105, 110, 101, 100] | Some t \<Rightarrow> t);
          signed = strip_sign (dropWhile is_space s);
          z = takeWhile (\<lambda>c. digit36_value c \<noteq> None) (snd signed)
      in if z = [] then None
         else Some (fst signed *
           int (foldl (\<lambda>acc c. acc * 36 + (case digit36_value c of None \<Rightarrow> 0 | Some d \<Rightarrow> d)) 0 z)))"

text \<open>
  \<open>Number.isFinite(length) ? length : 0\<close>: a parsed value is finite while it is below
  \<open>2 ^ 1024\<close> (to within the rounding of a double).
\<close>

definition run_count :: "jsstring option \<Rightarrow> int" where
  "run_count token =
     (case parseInt36 token of None \<Rightarrow> 0
      | Some v \<Rightarrow> if \<bar>v\<bar> < 2 ^ 1024 then v else 0)"

text \<open>
  \<open>unit.repeat(count)\<close>, for a \<open>unit\<close> of one code unit, throws a RangeError for a negative
  count and for a count beyond the longest string that the engine creates, which no
  engine puts above the longest string of the language (\<open>2 ^ 53 - 1\<close> code units).
\<close>

definition repeat :: "string_ops \<Rightarrow> nat \<Rightarrow> int \<Rightarrow> js_error + jsstring" where
  "repeat ops unit count =
     (if count < 0 \<or> 2 ^ 53 \<le> count \<or> int (max_string_length ops) < count then Inl RangeError
      else Inr (replicate (nat count) unit))"

text \<open>
  The loop of \<open>renderTokens\<close>; a token is \<open>None\<close> when the dictionary lookup that made it
  was out of range (\<open>undefined\<close>), which \<open>join\<close> prints as the empty string and on which
  \<open>toUpperCase\<close> throws. \<open>output\<close> holds the strings pushed so far, already joined.
\<close>

fun render_loop ::
  "string_ops \<Rightarrow> jsstring option list \<Rightarrow> pending_case option \<Rightarrow> pending_mode option \<Rightarrow> jsstring
     \<Rightarrow> js_error + jsstring"
where
  "render_loop ops [] pendingCase pendingMode output = Inr output"
| "render_loop ops (token # tokens) pendingCase pendingMode output =
     (if token = Some TOKEN_CASE_UPPER then render_loop ops tokens (Some Upper) pendingMode output
      else if token = Some TOKEN_CASE_TITLE then render_loop ops tokens (Some Title) pendingMode output
      else if token = Some TOKEN_WS_SPACE then render_loop ops tokens pendingCase (Some Space) output
      else if token = Some TOKEN_WS_NEWLINE then render_loop ops tokens pendingCase (Some Newline) output
      else if token = Some TOKEN_WS_TAB then render_loop ops tokens pendingCase (Some Tab) output
      else if token = Some TOKEN_NUM then render_loop ops tokens pendingCase (Some Number) output
      else if token = Some TOKEN_ESCAPE then render_loop ops tokens pendingCase (Some Escape) output
      else
        (case pendingMode of
           Some mode \<Rightarrow>
             (case (case mode of
                      Space \<Rightarrow> repeat ops 32 (run_count token)
                    | Newline \<Rightarrow> repeat ops 10 (run_count token)
                    | Tab \<Rightarrow> repeat ops 9 (run_count token)
                    | Number \<Rightarrow> Inr (case token of None \<Rightarrow> [] | Some t \<Rightarrow> t)
                    | Escape \<Rightarrow> Inr (case token of None \<Rightarrow> [] | Some t \<Rightarrow> t)) of
                Inl e \<Rightarrow> Inl e
              | Inr piece \<Rightarrow> render_loop ops tokens pendingCase None (output @ piece))
         | None \<Rightarrow>
             (case pendingCase of
                Some Upper \<Rightarrow>
                  (case token of
                     None \<Rightarrow> Inl TypeError
                   | Some t \<Rightarrow> render_loop ops tokens None None (output @ toUpperCase ops t))
              | Some Title \<Rightarrow>
                  (case token of
                     None \<Rightarrow> render_loop ops tokens None None output
                   | Some t \<Rightarrow>
                       render_loop ops tokens None None (output @ (if t = [] then t else titleCase ops t)))
              | None \<Rightarrow>
                  render_loop ops tokens None None
                    (output @ (case token of None \<Rightarrow> [] | Some t \<Rightarrow> t)))))"

definition renderTokens :: "string_ops \<Rightarrow> jsstring option list \<Rightarrow> js_error + jsstring" where
  "renderTokens ops tokens = render_loop ops tokens None None []"

subsection \<open>Cyclic Burrows-Wheeler transform\<close>

text \<open>
  A comparison with \<open>undefined\<close> is false, whichever side it is on.
\<close>

definition js_less :: "nat option \<Rightarrow> nat option \<Rightarrow> bool" where
  "js_less a b = (case a of None \<Rightarrow> False | Some x \<Rightarrow> (case b of None \<Rightarrow> False | Some y \<Rightarrow> x < y))"

function compareRotation_from :: "nat list \<Rightarrow> nat \<Rightarrow> nat \<Rightarrow> nat \<Rightarrow> nat \<Rightarrow> int" where
  "compareRotation_from ids len left right offset =
     (if offset < len then
        (let leftIndex = (if left + offset < len then left + offset else left + offset - len);
             rightIndex = (if right + offset < len then right + offset else right + offset - len);
             leftValue = at ids leftIndex;
             rightValue = at ids rightIndex
         in if js_less leftValue rightValue then - 1
            else if js_less rightValue leftValue then 1
            else compareRotation_from ids len left right (offset + 1))
      else 0)"
  by pat_completeness auto
termination
  by (relation "measure (\<lambda>(ids, len, left, right, offset). len - offset)") auto

declare compareRotation_from.simps [simp del]

definition compareRotation :: "nat list \<Rightarrow> nat \<Rightarrow> nat \<Rightarrow> nat \<Rightarrow> int" where
  "compareRotation ids len left right = compareRotation_from ids len left right 0"

text \<open>
  \<open>indices.sort(comparator)\<close>: a stable sort, here by insertion. An element goes before
  the first one that the comparator does not put before it.
\<close>

fun insert_by :: "('a \<Rightarrow> 'a \<Rightarrow> int) \<Rightarrow> 'a \<Rightarrow> 'a list \<Rightarrow> 'a list" where
  "insert_by cmp x [] = [x]"
| "insert_by cmp x (y # ys) = (if cmp x y \<le> 0 then x # y # ys else y # insert_by cmp x ys)"

definition sort_by :: "('a \<Rightarrow> 'a \<Rightarrow> int) \<Rightarrow> 'a list \<Rightarrow> 'a list" where
  "sort_by cmp xs = foldr (insert_by cmp) xs []"

definition buildCyclicSuffixArray :: "nat list \<Rightarrow> nat list" where
  "buildCyclicSuffixArray ids =
     sort_by (\<lambda>left right. compareRotation ids (length ids) left right) [0 ..< length ids]"

text \<open>
  The loop over \<open>order\<close>: \<open>primary_row\<close> keeps the last \<open>i\<close> with \<open>order[i] === 0\<close>.
\<close>

fun primary_row :: "nat list \<Rightarrow> nat \<Rightarrow> nat \<Rightarrow> nat" where
  "primary_row [] i primaryIndex = primaryIndex"
| "primary_row (start # order) i primaryIndex =
     primary_row order (i + 1) (if start = 0 then i else primaryIndex)"

definition burrowsWheelerTransform :: "nat list \<Rightarrow> nat list \<times> nat" where
  "burrowsWheelerTransform ids =
     (if length ids = 0 then ([], 0)
      else if length ids = 1 then ([to_u32 (at ids 0)], 0)
      else
        (let order = buildCyclicSuffixArray ids;
             lastColumn =
               map (\<lambda>start. to_u32 (at ids (if start = 0 then length ids - 1 else start - 1))) order
         in (lastColumn, primary_row order 0 0)))"

subsection \<open>Inverse transform\<close>

text \<open>\<open>counts[lastColumn[i]]++\<close> for every \<open>i\<close>.\<close>

fun count_symbols :: "nat list \<Rightarrow> nat list \<Rightarrow> nat list" where
  "count_symbols [] counts = counts"
| "count_symbols (symbol # lastColumn) counts = count_symbols lastColumn (incr counts (Some symbol))"

text \<open>\<open>starts[i] = sum; sum += counts[i]\<close>, over the alphabet; \<open>acc\<close> is \<open>sum\<close>.\<close>

fun start_offsets :: "nat list \<Rightarrow> nat \<Rightarrow> nat list" where
  "start_offsets [] acc = []"
| "start_offsets (c # counts) acc = to_u32 (Some acc) # start_offsets counts (acc + c)"

text \<open>
  The loop that fills \<open>next\<close>: \<open>pos = starts[symbol] + occ[symbol]\<close> is not a number when
  the symbol is outside the alphabet.
\<close>

fun fill_next :: "nat list \<Rightarrow> nat \<Rightarrow> nat list \<Rightarrow> nat list \<Rightarrow> nat list \<Rightarrow> nat list" where
  "fill_next [] i starts occ nxt = nxt"
| "fill_next (symbol # lastColumn) i starts occ nxt =
     (let pos = (case at starts symbol of None \<Rightarrow> None
                 | Some s \<Rightarrow> (case at occ symbol of None \<Rightarrow> None | Some k \<Rightarrow> Some (s + k)))
      in fill_next lastColumn (i + 1) starts (incr occ (Some symbol)) (put nxt pos (Some i)))"

text \<open>
  The last loop, \<open>for (let i = length - 1; i >= 0; i--)\<close>: the third argument is \<open>i + 1\<close>.
  Each round follows \<open>row = next[row]\<close> and stores \<open>restored[i] = lastColumn[row]\<close>.
\<close>

fun restore_rows :: "nat list \<Rightarrow> nat list \<Rightarrow> nat \<Rightarrow> nat option \<Rightarrow> nat list \<Rightarrow> nat list" where
  "restore_rows nxt lastColumn 0 row restored = restored"
| "restore_rows nxt lastColumn (Suc i) row restored =
     (let row' = at_opt nxt row
      in restore_rows nxt lastColumn i row' (put restored (Some i) (at_opt lastColumn row')))"

definition inverseBurrowsWheelerTransform :: "nat list \<Rightarrow> nat \<Rightarrow> nat \<Rightarrow> nat list" where
  "inverseBurrowsWheelerTransform lastColumn primaryIndex alphabetSize =
     (if length lastColumn = 0 then []
      else
        (let counts = count_symbols lastColumn (replicate alphabetSize 0);
             starts = start_offsets counts 0;
             nxt = fill_next lastColumn 0 starts (replicate alphabetSize 0)
                     (replicate (length lastColumn) 0)
         in restore_rows nxt lastColumn (length lastColumn) (Some primaryIndex)
              (replicate (length lastColumn) 0)))"

subsection \<open>Move-to-front\<close>

text \<open>
  The inner loop of the encoder, \<open>for (let j = pos; j > 0; j--)\<close>, with \<open>j\<close> the first
  argument.
\<close>

fun shift_lists :: "nat \<Rightarrow> nat list \<Rightarrow> nat list \<Rightarrow> nat list \<times> nat list" where
  "shift_lists 0 lst positions = (lst, positions)"
| "shift_lists (Suc j) lst positions =
     (let moved = at lst j
      in shift_lists j (put lst (Some (Suc j)) moved) (put positions moved (Some (Suc j))))"

fun mtf_encode_loop :: "nat list \<Rightarrow> nat list \<Rightarrow> nat list \<Rightarrow> nat list" where
  "mtf_encode_loop [] lst positions = []"
| "mtf_encode_loop (symbol # sequence) lst positions =
     (let pos = at positions symbol
      in to_u32 pos #
         (if pos \<noteq> Some 0 then
            (case shift_lists (case pos of None \<Rightarrow> 0 | Some p \<Rightarrow> p) lst positions of
               (lst', positions') \<Rightarrow>
                 mtf_encode_loop sequence (put lst' (Some 0) (Some symbol))
                   (put positions' (Some symbol) (Some 0)))
          else mtf_encode_loop sequence lst positions))"

definition moveToFrontEncode :: "nat list \<Rightarrow> nat \<Rightarrow> nat list" where
  "moveToFrontEncode sequence alphabetSize =
     mtf_encode_loop sequence [0 ..< alphabetSize] [0 ..< alphabetSize]"

fun shift_list :: "nat \<Rightarrow> nat list \<Rightarrow> nat list" where
  "shift_list 0 lst = lst"
| "shift_list (Suc j) lst = shift_list j (put lst (Some (Suc j)) (at lst j))"

fun mtf_decode_loop :: "nat list \<Rightarrow> nat list \<Rightarrow> nat list" where
  "mtf_decode_loop [] lst = []"
| "mtf_decode_loop (pos # mtf) lst =
     (let symbol = at lst pos
      in to_u32 symbol #
         (if pos \<noteq> 0 then mtf_decode_loop mtf (put (shift_list pos lst) (Some 0) symbol)
          else mtf_decode_loop mtf lst))"

definition moveToFrontDecode :: "nat list \<Rightarrow> nat \<Rightarrow> nat list" where
  "moveToFrontDecode mtf alphabetSize = mtf_decode_loop mtf [0 ..< alphabetSize]"

subsection \<open>Public API: wbwtCompress and wbwtDecompress\<close>

record payload =
  dictionary :: "jsstring list"
  primaryIndex :: nat
  mtf :: "nat list"

definition wbwtCompress :: "jsstring \<Rightarrow> payload" where
  "wbwtCompress text =
     (let tokens = normalizeTokens (tokenize text)
      in if length tokens = 0 then \<lparr>dictionary = [], primaryIndex = 0, mtf = []\<rparr>
         else
           (case tokensToIds tokens of
              (ids, dict) \<Rightarrow>
                (case burrowsWheelerTransform (ids @ [SENTINEL_ID]) of
                   (lastColumn, p) \<Rightarrow>
                     \<lparr>dictionary = dict, primaryIndex = p,
                      mtf = moveToFrontEncode lastColumn (length dict + 1)\<rparr>)))"

text \<open>
  \<open>tokens.push(dictionary[id - 1])\<close> for every id that is not the sentinel; the lookup is
  \<open>undefined\<close> when the id is beyond the dictionary.
\<close>

definition ids_to_tokens :: "jsstring list \<Rightarrow> nat list \<Rightarrow> jsstring option list" where
  "ids_to_tokens dict ids = map (\<lambda>i. at dict (i - 1)) (filter (\<lambda>i. i \<noteq> SENTINEL_ID) ids)"

definition wbwtDecompress :: "string_ops \<Rightarrow> payload option \<Rightarrow> js_error + jsstring" where
  "wbwtDecompress ops p =
     (case p of None \<Rightarrow> Inr []
      | Some pl \<Rightarrow>
          if length (dictionary pl) = 0 \<or> length (mtf pl) = 0 then Inr []
          else
            (let alphabetSize = length (dictionary pl) + 1;
                 lastColumn = moveToFrontDecode (mtf pl) alphabetSize;
                 ids = inverseBurrowsWheelerTransform lastColumn (primaryIndex pl) alphabetSize
             in renderTokens ops (ids_to_tokens (dictionary pl) ids)))"

subsection \<open>Byte utilities\<close>

text \<open>
  A \<open>ByteWriter\<close> is the list of the bytes written so far (\<open>toUint8Array\<close> is the
  identity); \<open>pushByte\<close> stores \<open>value & 0xff\<close>.
\<close>

definition pushByte :: "bytes \<Rightarrow> nat \<Rightarrow> bytes" where
  "pushByte writer v = writer @ [v AND 255]"

definition pushUint32LE :: "bytes \<Rightarrow> nat \<Rightarrow> bytes" where
  "pushUint32LE writer v =
     writer @ [v AND 255, drop_bit 8 v AND 255, drop_bit 16 v AND 255, drop_bit 24 v AND 255]"

text \<open>\<open>writeVarint\<close>: \<open>current = value >>> 0\<close>, then seven bits a byte, low group first.\<close>

function varint_bytes :: "nat \<Rightarrow> bytes" where
  "varint_bytes current =
     (if 128 \<le> current then ((current AND 127) OR 128) # varint_bytes (drop_bit 7 current)
      else [current])"
  by pat_completeness auto
termination
  by (relation "measure id") (auto simp: drop_bit_eq_div)

declare varint_bytes.simps [simp del]

definition writeVarint :: "bytes \<Rightarrow> nat \<Rightarrow> bytes" where
  "writeVarint writer v = writer @ map (\<lambda>b. b AND 255) (varint_bytes (v mod 2 ^ 32))"

text \<open>
  \<open>readVarint\<close>: a byte read past the end is \<open>undefined\<close>, which the bitwise operators
  take as 0. \<open>result\<close> is a 32-bit integer and \<open><<\<close> uses its count modulo 32; the
  loop has no bound on the number of bytes.
\<close>

function readVarint_loop :: "bytes \<Rightarrow> nat \<Rightarrow> 32 word \<Rightarrow> nat \<Rightarrow> nat \<times> nat" where
  "readVarint_loop bs offset result shift =
     (let byte = (case at bs offset of None \<Rightarrow> 0 | Some b \<Rightarrow> b);
          result' = result OR push_bit (shift mod 32) (word_of_nat (byte AND 127))
      in if byte AND 128 \<noteq> 0 then readVarint_loop bs (offset + 1) result' (shift + 7)
         else (unat result', offset + 1))"
  by pat_completeness auto
termination
proof (relation "measure (\<lambda>(bs, offset, result, shift). length bs - offset)", goal_cases)
  case 1
  show ?case by simp
next
  case (2 bs offset result shift byte result')
  then have "offset < length bs"
    by (cases "offset < length bs") (simp_all add: at_def)
  then show ?case by simp
qed

declare readVarint_loop.simps [simp del]

definition readVarint :: "bytes \<Rightarrow> nat \<Rightarrow> nat \<times> nat" where
  "readVarint bs offset = readVarint_loop bs offset 0 0"

definition byte_or_zero :: "bytes \<Rightarrow> nat \<Rightarrow> 32 word" where
  "byte_or_zero bs i = (case at bs i of None \<Rightarrow> 0 | Some b \<Rightarrow> word_of_nat b)"

definition readUint32LE :: "bytes \<Rightarrow> nat \<Rightarrow> nat" where
  "readUint32LE bs offset =
     unat (byte_or_zero bs offset OR push_bit 8 (byte_or_zero bs (offset + 1)) OR
           push_bit 16 (byte_or_zero bs (offset + 2)) OR push_bit 24 (byte_or_zero bs (offset + 3)))"

subsection \<open>Zero-run coding (RUNA/RUNB)\<close>

text \<open>
  \<open>flushRun\<close>: the digits of \<open>run\<close>, \<open>((run - 1) & 1)\<close> first, then
  \<open>run = (run - 1) >> 1\<close>; \<open>run\<close> counts elements of \<open>mtf\<close>, and for a count below
  \<open>2 ^ 31\<close> the shift is the halving.
\<close>

function flushRun :: "nat \<Rightarrow> nat list" where
  "flushRun run = (if 0 < run then ((run - 1) AND 1) # flushRun (drop_bit 1 (run - 1)) else [])"
  by pat_completeness auto
termination
  by (relation "measure id") (auto simp: drop_bit_eq_div)

declare flushRun.simps [simp del]

fun mtfToSymbols_loop :: "nat list \<Rightarrow> nat \<Rightarrow> nat list" where
  "mtfToSymbols_loop [] run = (if 0 < run then flushRun run else [])"
| "mtfToSymbols_loop (v # rest) run =
     (if v = 0 then mtfToSymbols_loop rest (run + 1)
      else (if 0 < run then flushRun run else []) @ (v + 1) # mtfToSymbols_loop rest 0)"

definition mtfToSymbols :: "nat list \<Rightarrow> nat list" where
  "mtfToSymbols m = map (\<lambda>v. to_u32 (Some v)) (mtfToSymbols_loop m 0)"

text \<open>
  The two loops \<open>while (run > 0 && mtfIndex < tokenCount) { mtf[mtfIndex++] = 0; run--; }\<close>
  of \<open>symbolsToMtf\<close>. \<open>run\<close> is a number, \<open>base\<close> a 32-bit integer (\<open>base <<= 1\<close>).
\<close>

function zero_fill :: "nat list \<Rightarrow> nat \<Rightarrow> int \<Rightarrow> nat \<Rightarrow> nat list \<times> nat \<times> int" where
  "zero_fill m mtfIndex run tokenCount =
     (if 0 < run \<and> mtfIndex < tokenCount
      then zero_fill (put m (Some mtfIndex) (Some 0)) (mtfIndex + 1) (run - 1) tokenCount
      else (m, mtfIndex, run))"
  by pat_completeness auto
termination
  by (relation "measure (\<lambda>(m, mtfIndex, run, tokenCount). tokenCount - mtfIndex)") auto

declare zero_fill.simps [simp del]

fun symbolsToMtf_loop ::
  "nat list \<Rightarrow> nat \<Rightarrow> nat list \<Rightarrow> nat \<Rightarrow> int \<Rightarrow> 32 word \<Rightarrow> nat list \<times> nat"
where
  "symbolsToMtf_loop [] tokenCount m mtfIndex run base =
     (case zero_fill m mtfIndex run tokenCount of (m', mtfIndex', run') \<Rightarrow> (m', mtfIndex'))"
| "symbolsToMtf_loop (symbol # symbols) tokenCount m mtfIndex run base =
     (if symbol \<le> 1 then
        symbolsToMtf_loop symbols tokenCount m mtfIndex
          (run + (if symbol = 0 then 1 else 2) * sint base) (push_bit 1 base)
      else
        (case (if 0 < run
               then (case zero_fill m mtfIndex run tokenCount of
                       (m', mtfIndex', run') \<Rightarrow> (m', mtfIndex', 0, 1))
               else (m, mtfIndex, run, base)) of
           (m1, mtfIndex1, run1, base1) \<Rightarrow>
             if mtfIndex1 < tokenCount
             then symbolsToMtf_loop symbols tokenCount
                    (put m1 (Some mtfIndex1) (Some (symbol - 1))) (mtfIndex1 + 1) run1 base1
             else symbolsToMtf_loop symbols tokenCount m1 mtfIndex1 run1 base1))"

text \<open>
  \<open>symbolsToMtf\<close> begins with \<open>const mtf = new Uint32Array(tokenCount)\<close>, which throws when
  the engine does not create an array of \<open>tokenCount\<close> elements; the loop then runs on the
  new array, and the array alone is returned.
\<close>

definition symbolsToMtf :: "engine \<Rightarrow> nat list \<Rightarrow> nat \<Rightarrow> js_error + nat list" where
  "symbolsToMtf e symbols tokenCount =
     (case new_Uint32Array e tokenCount of
        Inl err \<Rightarrow> Inl err
      | Inr m \<Rightarrow> Inr (fst (symbolsToMtf_loop symbols tokenCount m 0 0 1)))"

subsection \<open>TextEncoder and TextDecoder\<close>

text \<open>
  The two platform objects that \<open>serializeWBWT\<close> and \<open>deserializeWBWT\<close> create, as the
  Encoding standard defines them. \<open>TextEncoder.encode\<close> reads the string as scalar
  values, an unpaired surrogate as U+FFFD, and writes their UTF-8 bytes.
\<close>

definition is_high_surrogate :: "nat \<Rightarrow> bool" where
  "is_high_surrogate c \<longleftrightarrow> 55296 \<le> c \<and> c \<le> 56319"

definition is_low_surrogate :: "nat \<Rightarrow> bool" where
  "is_low_surrogate c \<longleftrightarrow> 56320 \<le> c \<and> c \<le> 57343"

fun scalar_values :: "jsstring \<Rightarrow> nat list" where
  "scalar_values [] = []"
| "scalar_values [c] = [if is_high_surrogate c \<or> is_low_surrogate c then 65533 else c]"
| "scalar_values (c # d # rest) =
     (if is_high_surrogate c \<and> is_low_surrogate d
      then (65536 + (c - 55296) * 1024 + (d - 56320)) # scalar_values rest
      else (if is_high_surrogate c \<or> is_low_surrogate c then 65533 else c)
             # scalar_values (d # rest))"

definition utf8_bytes :: "nat \<Rightarrow> bytes" where
  "utf8_bytes cp =
     (if cp < 128 then [cp]
      else if cp < 2048 then [192 + cp div 64, 128 + cp mod 64]
      else if cp < 65536 then [224 + cp div 4096, 128 + cp div 64 mod 64, 128 + cp mod 64]
      else [240 + cp div 262144, 128 + cp div 4096 mod 64, 128 + cp div 64 mod 64,
            128 + cp mod 64])"

definition encode_utf8 :: "jsstring \<Rightarrow> bytes" where
  "encode_utf8 s = concat (map utf8_bytes (scalar_values s))"

text \<open>
  The UTF-8 decoder of the standard: the code point being built, the bytes seen and
  needed, and the bounds of the next continuation byte. A byte that cannot continue a
  sequence gives U+FFFD and is read again as the start of a new one; an unfinished
  sequence at the end gives U+FFFD.
\<close>

function decode_utf8_loop :: "bytes \<Rightarrow> nat \<Rightarrow> nat \<Rightarrow> nat \<Rightarrow> nat \<Rightarrow> nat \<Rightarrow> nat list" where
  "decode_utf8_loop [] cp seen needed lower upper = (if needed \<noteq> 0 then [65533] else [])"
| "decode_utf8_loop (b # bs) cp seen needed lower upper =
     (if needed = 0 then
        (if b \<le> 127 then b # decode_utf8_loop bs 0 0 0 128 191
         else if 194 \<le> b \<and> b \<le> 223 then decode_utf8_loop bs (b AND 31) 0 1 128 191
         else if 224 \<le> b \<and> b \<le> 239 then
           decode_utf8_loop bs (b AND 15) 0 2 (if b = 224 then 160 else 128)
             (if b = 237 then 159 else 191)
         else if 240 \<le> b \<and> b \<le> 244 then
           decode_utf8_loop bs (b AND 7) 0 3 (if b = 240 then 144 else 128)
             (if b = 244 then 143 else 191)
         else 65533 # decode_utf8_loop bs 0 0 0 128 191)
      else if b < lower \<or> upper < b then 65533 # decode_utf8_loop (b # bs) 0 0 0 128 191
      else if seen + 1 \<noteq> needed then
        decode_utf8_loop bs (push_bit 6 cp OR (b AND 63)) (seen + 1) needed 128 191
      else (push_bit 6 cp OR (b AND 63)) # decode_utf8_loop bs 0 0 0 128 191)"
  by pat_completeness auto
termination
  by (relation "measure (\<lambda>(bs, cp, seen, needed, lower, upper).
        2 * length bs + (if needed = 0 then 0 else 1))") auto

definition code_units :: "nat \<Rightarrow> jsstring" where
  "code_units cp =
     (if cp < 65536 then [cp]
      else [55296 + (cp - 65536) div 1024, 56320 + (cp - 65536) mod 1024])"

text \<open>
  \<open>new TextDecoder()\<close> leaves \<open>ignoreBOM\<close> false, and \<open>decode\<close> without the \<open>stream\<close>
  option starts afresh on every call: a leading U+FEFF of the decoded text is dropped.
\<close>

definition drop_bom :: "nat list \<Rightarrow> nat list" where
  "drop_bom cps = (case cps of [] \<Rightarrow> [] | c # rest \<Rightarrow> if c = 65279 then rest else cps)"

definition decode_utf8 :: "bytes \<Rightarrow> jsstring" where
  "decode_utf8 bs = concat (map code_units (drop_bom (decode_utf8_loop bs 0 0 0 128 191)))"

subsection \<open>Bit input and output\<close>

record bit_writer =
  bw_bytes :: bytes
  bw_current :: nat
  bw_filled :: nat

definition new_bit_writer :: bit_writer where
  "new_bit_writer = \<lparr>bw_bytes = [], bw_current = 0, bw_filled = 0\<rparr>"

definition writeBit :: "bit_writer \<Rightarrow> nat \<Rightarrow> bit_writer" where
  "writeBit w b =
     (let current = push_bit 1 (bw_current w) OR (b AND 1);
          filled = bw_filled w + 1
      in if filled = 8
         then \<lparr>bw_bytes = pushByte (bw_bytes w) current, bw_current = 0, bw_filled = 0\<rparr>
         else w\<lparr>bw_current := current, bw_filled := filled\<rparr>)"

definition finish_bits :: "bit_writer \<Rightarrow> bytes" where
  "finish_bits w =
     (if 0 < bw_filled w
      then pushByte (bw_bytes w) (push_bit (8 - bw_filled w) (bw_current w))
      else bw_bytes w)"

record bit_reader =
  br_bytes :: bytes
  br_index :: nat
  br_current :: nat
  br_remaining :: nat

definition new_bit_reader :: "bytes \<Rightarrow> bit_reader" where
  "new_bit_reader bs = \<lparr>br_bytes = bs, br_index = 0, br_current = 0, br_remaining = 0\<rparr>"

definition readBit :: "bit_reader \<Rightarrow> nat \<times> bit_reader" where
  "readBit r =
     (let r1 = (if br_remaining r = 0
                then (case at (br_bytes r) (br_index r) of
                        Some b \<Rightarrow> r\<lparr>br_index := br_index r + 1, br_current := b, br_remaining := 8\<rparr>
                      | None \<Rightarrow> r\<lparr>br_current := 0, br_remaining := 8\<rparr>)
                else r)
      in (if br_current r1 AND 128 \<noteq> 0 then 1 else 0,
          r1\<lparr>br_current := push_bit 1 (br_current r1) AND 255,
             br_remaining := br_remaining r1 - 1\<rparr>))"

text \<open>\<open>readBits\<close>: \<open>value = (value << 1) | readBit()\<close> on 32 bits, read unsigned at the end.\<close>

fun readBits_loop :: "nat \<Rightarrow> 32 word \<Rightarrow> bit_reader \<Rightarrow> nat \<times> bit_reader" where
  "readBits_loop 0 v r = (unat v, r)"
| "readBits_loop (Suc n) v r =
     (case readBit r of (b, r') \<Rightarrow> readBits_loop n (push_bit 1 v OR word_of_nat b) r')"

definition readBits :: "bit_reader \<Rightarrow> nat \<Rightarrow> nat \<times> bit_reader" where
  "readBits r n = readBits_loop n 0 r"

subsection \<open>Fenwick model\<close>

record fenwick =
  fw_size :: nat
  fw_tree :: "nat list"
  fw_freq :: "nat list"
  fw_total :: nat

text \<open>
  The constructor creates two arrays of \<open>size + 1\<close> elements. \<open>new_fenwick\<close> is the
  constructor as the encoders call it, for the dictionary that \<open>serializeWBWT\<close> holds;
  \<open>new_FenwickTree\<close> is the constructor as the decoders of a frame call it, where the
  engine creates the two arrays or throws.
\<close>

definition new_fenwick :: "nat \<Rightarrow> fenwick" where
  "new_fenwick n =
     \<lparr>fw_size = n, fw_tree = replicate (n + 1) 0, fw_freq = replicate (n + 1) 0, fw_total = 0\<rparr>"

definition new_FenwickTree :: "engine \<Rightarrow> nat \<Rightarrow> js_error + fenwick" where
  "new_FenwickTree e n =
     (case new_Uint32Array e (n + 1) of
        Inl err \<Rightarrow> Inl err
      | Inr tree \<Rightarrow>
          (case new_Uint32Array e (n + 1) of
             Inl err \<Rightarrow> Inl err
           | Inr freq \<Rightarrow> Inr \<lparr>fw_size = n, fw_tree = tree, fw_freq = freq, fw_total = 0\<rparr>))"

text \<open>\<open>idx & -idx\<close>, for an index below \<open>2 ^ 31\<close>.\<close>

definition lowbit :: "nat \<Rightarrow> nat" where
  "lowbit idx = nat (int idx AND - int idx)"

text \<open>\<open>xs[i] += d\<close> on a \<open>Uint32Array\<close>.\<close>

definition add_at :: "nat list \<Rightarrow> nat \<Rightarrow> nat \<Rightarrow> nat list" where
  "add_at xs i d = (case at xs i of None \<Rightarrow> xs | Some v \<Rightarrow> put xs (Some i) (Some (v + d)))"

text \<open>
  \<open>while (idx <= this.size) { this.tree[idx] += value; idx += idx & -idx; }\<close>; with
  \<open>idx = 0\<close> the loop does not end.
\<close>

partial_function (option) tree_add :: "nat \<Rightarrow> nat list \<Rightarrow> nat \<Rightarrow> nat \<Rightarrow> nat list option" where
  "tree_add n tree idx d =
     (if idx \<le> n then tree_add n (add_at tree idx d) (idx + lowbit idx) d else Some tree)"

fun reset_loop :: "nat list \<Rightarrow> nat \<Rightarrow> fenwick \<Rightarrow> fenwick option" where
  "reset_loop [] v m = Some m"
| "reset_loop (i # rest) v m =
     (case tree_add (fw_size m) (fw_tree m) i v of
        None \<Rightarrow> None
      | Some t \<Rightarrow>
          reset_loop rest v
            (m\<lparr>fw_freq := put (fw_freq m) (Some i) (Some v), fw_total := fw_total m + v,
               fw_tree := t\<rparr>))"

definition reset :: "fenwick \<Rightarrow> nat \<Rightarrow> fenwick option" where
  "reset m v =
     reset_loop [1 ..< fw_size m + 1] v
       (m\<lparr>fw_tree := replicate (length (fw_tree m)) 0,
          fw_freq := replicate (length (fw_freq m)) 0, fw_total := 0\<rparr>)"

text \<open>
  \<open>sum(index)\<close> and \<open>freq[index]\<close>. Beyond the arrays the source reads \<open>undefined\<close> and
  computes with \<open>NaN\<close> from there on; the model reads 0 instead, and so follows the
  source as long as the index stays inside the arrays.
\<close>

partial_function (option) sum_loop :: "nat list \<Rightarrow> nat \<Rightarrow> nat \<Rightarrow> nat option" where
  "sum_loop tree idx result =
     (if 0 < idx
      then sum_loop tree (idx - lowbit idx) (result + (case at tree idx of None \<Rightarrow> 0 | Some t \<Rightarrow> t))
      else Some result)"

definition fw_sum :: "fenwick \<Rightarrow> nat \<Rightarrow> nat option" where
  "fw_sum m i = sum_loop (fw_tree m) i 0"

definition freq_at :: "fenwick \<Rightarrow> nat \<Rightarrow> nat" where
  "freq_at m i = (case at (fw_freq m) i of None \<Rightarrow> 0 | Some f \<Rightarrow> f)"

definition fw_add :: "fenwick \<Rightarrow> nat \<Rightarrow> nat \<Rightarrow> fenwick option" where
  "fw_add m i d =
     (case tree_add (fw_size m) (fw_tree m) i d of
        None \<Rightarrow> None
      | Some t \<Rightarrow>
          Some (m\<lparr>fw_freq := add_at (fw_freq m) i d, fw_total := fw_total m + d, fw_tree := t\<rparr>))"

text \<open>
  \<open>rescale\<close>: \<open>value = (this.freq[i] + 1) >> 1\<close>, at least 1; for a frequency below
  \<open>2 ^ 31 - 1\<close> the shift is the halving.
\<close>

fun rescale_loop :: "nat list \<Rightarrow> fenwick \<Rightarrow> fenwick option" where
  "rescale_loop [] m = Some m"
| "rescale_loop (i # rest) m =
     (let v0 = drop_bit 1 (freq_at m i + 1);
          v = (if v0 = 0 then 1 else v0)
      in case tree_add (fw_size m) (fw_tree m) i v of
           None \<Rightarrow> None
         | Some t \<Rightarrow>
             rescale_loop rest
               (m\<lparr>fw_freq := put (fw_freq m) (Some i) (Some v), fw_total := fw_total m + v,
                  fw_tree := t\<rparr>))"

definition rescale :: "fenwick \<Rightarrow> fenwick option" where
  "rescale m =
     rescale_loop [1 ..< fw_size m + 1]
       (m\<lparr>fw_tree := replicate (length (fw_tree m)) 0, fw_total := 0\<rparr>)"

text \<open>
  \<open>findByCumulative\<close>: \<open>bit\<close> is a 32-bit integer. The first loop,
  \<open>while (bit <= this.size) bit <<= 1\<close>, does not end when the size reaches \<open>2 ^ 30\<close>.
\<close>

partial_function (option) top_bit :: "32 word \<Rightarrow> nat \<Rightarrow> 32 word option" where
  "top_bit b n = (if sint b \<le> int n then top_bit (push_bit 1 b) n else Some b)"

partial_function (option) descend :: "fenwick \<Rightarrow> int \<Rightarrow> 32 word \<Rightarrow> int \<Rightarrow> int \<Rightarrow> int option" where
  "descend m v b idx acc =
     (if b \<noteq> 0 then
        (let nxt = idx + sint b;
             t = (case (if 0 \<le> nxt then at (fw_tree m) (nat nxt) else None) of
                    None \<Rightarrow> 0 | Some x \<Rightarrow> int x)
         in if nxt \<le> int (fw_size m) \<and> acc + t \<le> v
            then descend m v (signed_drop_bit 1 b) nxt (acc + t)
            else descend m v (signed_drop_bit 1 b) idx acc)
      else Some (idx + 1))"

definition findByCumulative :: "fenwick \<Rightarrow> int \<Rightarrow> int option" where
  "findByCumulative m v =
     (case top_bit 1 (fw_size m) of
        None \<Rightarrow> None
      | Some b \<Rightarrow> descend m v (signed_drop_bit 1 b) 0 0)"

text \<open>
  \<open>model.add(symbolIndex, 1); if (model.total >= ENTROPY_MAX_TOTAL) model.rescale();\<close>
\<close>

definition ENTROPY_MAX_TOTAL :: nat where
  "ENTROPY_MAX_TOTAL = 2 ^ 15"

definition update_model :: "fenwick \<Rightarrow> nat \<Rightarrow> fenwick option" where
  "update_model m symbolIndex =
     (case fw_add m symbolIndex 1 of
        None \<Rightarrow> None
      | Some m' \<Rightarrow> if ENTROPY_MAX_TOTAL \<le> fw_total m' then rescale m' else Some m')"

subsection \<open>Adaptive arithmetic coder\<close>

definition ENTROPY_TOP_VALUE :: int where
  "ENTROPY_TOP_VALUE = 4294967295"

definition ENTROPY_FIRST_QTR :: int where
  "ENTROPY_FIRST_QTR = 1073741824"

definition ENTROPY_HALF :: int where
  "ENTROPY_HALF = 2147483648"

definition ENTROPY_THIRD_QTR :: int where
  "ENTROPY_THIRD_QTR = 3221225472"

record encoder =
  enc_writer :: bit_writer
  enc_low :: int
  enc_high :: int
  enc_pending :: nat

definition new_encoder :: encoder where
  "new_encoder =
     \<lparr>enc_writer = new_bit_writer, enc_low = 0, enc_high = ENTROPY_TOP_VALUE, enc_pending = 0\<rparr>"

fun write_pending :: "bit_writer \<Rightarrow> nat \<Rightarrow> nat \<Rightarrow> bit_writer" where
  "write_pending w fill 0 = w"
| "write_pending w fill (Suc n) = write_pending (writeBit w fill) fill n"

definition outputBitAndPending :: "encoder \<Rightarrow> nat \<Rightarrow> encoder" where
  "outputBitAndPending e b =
     e\<lparr>enc_writer := write_pending (writeBit (enc_writer e) b) (if b = 0 then 1 else 0)
                        (enc_pending e),
       enc_pending := 0\<rparr>"

text \<open>
  The new bounds: \<open>high = low + Math.floor(range * (cum + freq) / total) - 1\<close> and
  \<open>low = low + Math.floor(range * cum / total)\<close>, exact as long as the products stay
  below \<open>2 ^ 53\<close>; the total is positive, since every model has at least two symbols.
\<close>

definition narrow :: "int \<Rightarrow> int \<Rightarrow> nat \<Rightarrow> nat \<Rightarrow> nat \<Rightarrow> int \<times> int" where
  "narrow lo hi cum freq tot =
     (let range = hi - lo + 1
      in (lo + range * int cum div int tot,
          lo + range * int (cum + freq) div int tot - 1))"

partial_function (option) encode_renorm :: "encoder \<Rightarrow> encoder option" where
  "encode_renorm e =
     (if enc_high e < ENTROPY_HALF then
        (let e1 = outputBitAndPending e 0
         in encode_renorm (e1\<lparr>enc_low := enc_low e1 * 2, enc_high := enc_high e1 * 2 + 1\<rparr>))
      else if ENTROPY_HALF \<le> enc_low e then
        (let e1 = outputBitAndPending e 1
         in encode_renorm
              (e1\<lparr>enc_low := (enc_low e1 - ENTROPY_HALF) * 2,
                  enc_high := (enc_high e1 - ENTROPY_HALF) * 2 + 1\<rparr>))
      else if ENTROPY_FIRST_QTR \<le> enc_low e \<and> enc_high e < ENTROPY_THIRD_QTR then
        encode_renorm
          (e\<lparr>enc_pending := enc_pending e + 1,
             enc_low := (enc_low e - ENTROPY_FIRST_QTR) * 2,
             enc_high := (enc_high e - ENTROPY_FIRST_QTR) * 2 + 1\<rparr>)
      else Some e)"

definition encodeSymbol :: "encoder \<Rightarrow> fenwick \<Rightarrow> nat \<Rightarrow> encoder option" where
  "encodeSymbol e m symbolIndex =
     (case fw_sum m (symbolIndex - 1) of
        None \<Rightarrow> None
      | Some cum \<Rightarrow>
          (case narrow (enc_low e) (enc_high e) cum (freq_at m symbolIndex) (fw_total m) of
             (lo, hi) \<Rightarrow> encode_renorm (e\<lparr>enc_low := lo, enc_high := hi\<rparr>)))"

definition finish_encoder :: "encoder \<Rightarrow> encoder" where
  "finish_encoder e =
     (let e1 = e\<lparr>enc_pending := enc_pending e + 1\<rparr>
      in if enc_low e1 < ENTROPY_FIRST_QTR then outputBitAndPending e1 0
         else outputBitAndPending e1 1)"

fun encode_all :: "nat list \<Rightarrow> fenwick \<Rightarrow> encoder \<Rightarrow> encoder option" where
  "encode_all [] m e = Some e"
| "encode_all (symbol # symbols) m e =
     (case encodeSymbol e m (symbol + 1) of
        None \<Rightarrow> None
      | Some e' \<Rightarrow>
          (case update_model m (symbol + 1) of
             None \<Rightarrow> None
           | Some m' \<Rightarrow> encode_all symbols m' e'))"

definition entropyEncodeSymbols :: "nat list \<Rightarrow> nat \<Rightarrow> bytes option" where
  "entropyEncodeSymbols symbols alphabetSize =
     (if length symbols = 0 then Some []
      else
        (case reset (new_fenwick alphabetSize) 1 of
           None \<Rightarrow> None
         | Some m \<Rightarrow>
             (case encode_all symbols m new_encoder of
                None \<Rightarrow> None
              | Some e \<Rightarrow> Some (finish_bits (enc_writer (finish_encoder e))))))"

record decoder =
  dec_reader :: bit_reader
  dec_low :: int
  dec_high :: int
  dec_value :: int

definition new_decoder :: "bytes \<Rightarrow> decoder" where
  "new_decoder bs =
     (case readBits (new_bit_reader bs) 32 of
        (v, r) \<Rightarrow> \<lparr>dec_reader = r, dec_low = 0, dec_high = ENTROPY_TOP_VALUE, dec_value = int v\<rparr>)"

text \<open>
  One more bit of the stream: \<open>value = (value * 2 + readBit()) >>> 0\<close>, with
  \<open>low = low * 2\<close> and \<open>high = high * 2 + 1\<close>.
\<close>

definition shift_in :: "decoder \<Rightarrow> decoder" where
  "shift_in d =
     (case readBit (dec_reader d) of
        (b, r) \<Rightarrow>
          \<lparr>dec_reader = r, dec_low = dec_low d * 2, dec_high = dec_high d * 2 + 1,
           dec_value = (dec_value d * 2 + int b) mod 2 ^ 32\<rparr>)"

partial_function (option) decode_renorm :: "decoder \<Rightarrow> decoder option" where
  "decode_renorm d =
     (if dec_high d < ENTROPY_HALF then decode_renorm (shift_in d)
      else if ENTROPY_HALF \<le> dec_low d then
        decode_renorm
          (shift_in (d\<lparr>dec_value := dec_value d - ENTROPY_HALF,
                       dec_low := dec_low d - ENTROPY_HALF,
                       dec_high := dec_high d - ENTROPY_HALF\<rparr>))
      else if ENTROPY_FIRST_QTR \<le> dec_low d \<and> dec_high d < ENTROPY_THIRD_QTR then
        decode_renorm
          (shift_in (d\<lparr>dec_value := dec_value d - ENTROPY_FIRST_QTR,
                       dec_low := dec_low d - ENTROPY_FIRST_QTR,
                       dec_high := dec_high d - ENTROPY_FIRST_QTR\<rparr>))
      else Some d)"

definition decodeSymbol :: "decoder \<Rightarrow> fenwick \<Rightarrow> (nat \<times> decoder) option" where
  "decodeSymbol d m =
     (let range = dec_high d - dec_low d + 1;
          cumValue = ((dec_value d - dec_low d + 1) * int (fw_total m) - 1) div range
      in case findByCumulative m cumValue of
           None \<Rightarrow> None
         | Some symbolIndex \<Rightarrow>
             (case fw_sum m (nat symbolIndex - 1) of
                None \<Rightarrow> None
              | Some cum \<Rightarrow>
                  (case narrow (dec_low d) (dec_high d) cum (freq_at m (nat symbolIndex))
                          (fw_total m) of
                     (lo, hi) \<Rightarrow>
                       (case decode_renorm (d\<lparr>dec_low := lo, dec_high := hi\<rparr>) of
                          None \<Rightarrow> None
                        | Some d' \<Rightarrow> Some (nat symbolIndex, d')))))"

text \<open>
  The loop of \<open>entropyDecodeSymbols\<close> and \<open>entropyDecodeBytes\<close>: \<open>output[i] = symbolIndex - 1\<close>.
\<close>

fun decode_all :: "nat \<Rightarrow> fenwick \<Rightarrow> decoder \<Rightarrow> nat list option" where
  "decode_all 0 m d = Some []"
| "decode_all (Suc n) m d =
     (case decodeSymbol d m of
        None \<Rightarrow> None
      | Some (symbolIndex, d') \<Rightarrow>
          (case update_model m symbolIndex of
             None \<Rightarrow> None
           | Some m' \<Rightarrow>
               (case decode_all n m' d' of
                  None \<Rightarrow> None
                | Some out \<Rightarrow> Some ((symbolIndex - 1) # out))))"

text \<open>
  The two decoders are called with counts read from a frame. Each creates the model,
  resets it, and then creates \<open>output\<close>, which the loop fills from its first to its last
  entry. The result is \<open>None\<close> when the call does not return, \<open>Some (Inl err)\<close> when it
  throws.
\<close>

definition entropyDecodeSymbols ::
  "engine \<Rightarrow> bytes \<Rightarrow> nat \<Rightarrow> nat \<Rightarrow> (js_error + nat list) option"
where
  "entropyDecodeSymbols e bs symbolCount alphabetSize =
     (if symbolCount = 0 then Some (new_Uint32Array e 0)
      else
        (case new_FenwickTree e alphabetSize of
           Inl err \<Rightarrow> Some (Inl err)
         | Inr model \<Rightarrow>
             (case reset model 1 of
                None \<Rightarrow> None
              | Some m \<Rightarrow>
                  (case new_Uint32Array e symbolCount of
                     Inl err \<Rightarrow> Some (Inl err)
                   | Inr output \<Rightarrow>
                       map_option (\<lambda>out. Inr (map (\<lambda>v. to_u32 (Some v)) out))
                         (decode_all symbolCount m (new_decoder bs))))))"

definition entropyDecodeBytes :: "engine \<Rightarrow> bytes \<Rightarrow> nat \<Rightarrow> (js_error + bytes) option" where
  "entropyDecodeBytes e bs outputLength =
     (if outputLength = 0 then Some (new_Uint8Array e 0)
      else
        (case new_FenwickTree e 256 of
           Inl err \<Rightarrow> Some (Inl err)
         | Inr model \<Rightarrow>
             (case reset model 1 of
                None \<Rightarrow> None
              | Some m \<Rightarrow>
                  (case new_Uint8Array e outputLength of
                     Inl err \<Rightarrow> Some (Inl err)
                   | Inr output \<Rightarrow>
                       map_option (\<lambda>out. Inr (map (\<lambda>v. v AND 255) out))
                         (decode_all outputLength m (new_decoder bs))))))"

subsection \<open>Legacy run-length decoder\<close>

text \<open>
  \<open>decodeMtfRle\<close>: \<open>while (index < tokenCount)\<close> reads one varint a round. An even value
  is a run of zeros (the inner loop is the one of \<open>zero_fill\<close>), an odd one a literal.
  Nothing in the loop looks at the length of \<open>bytes\<close>. Before the loop,
  \<open>new Uint32Array(tokenCount)\<close> creates the array or throws.
\<close>

partial_function (option) decodeMtfRle_loop ::
  "bytes \<Rightarrow> nat \<Rightarrow> nat \<Rightarrow> nat \<Rightarrow> nat list \<Rightarrow> (nat list \<times> nat) option"
where
  "decodeMtfRle_loop bs offset tokenCount index m =
     (if index < tokenCount then
        (let parsed = readVarint bs offset
         in if fst parsed AND 1 = 0 then
              (let filled = zero_fill m index (int (drop_bit 1 (fst parsed))) tokenCount
               in decodeMtfRle_loop bs (snd parsed) tokenCount (fst (snd filled)) (fst filled))
            else
              decodeMtfRle_loop bs (snd parsed) tokenCount (index + 1)
                (put m (Some index) (Some (drop_bit 1 (fst parsed)))))
      else Some (m, offset))"

definition decodeMtfRle ::
  "engine \<Rightarrow> bytes \<Rightarrow> nat \<Rightarrow> nat \<Rightarrow> (js_error + nat list \<times> nat) option"
where
  "decodeMtfRle e bs offset tokenCount =
     (case new_Uint32Array e tokenCount of
        Inl err \<Rightarrow> Some (Inl err)
      | Inr m \<Rightarrow> map_option Inr (decodeMtfRle_loop bs offset tokenCount 0 m))"

subsection \<open>Container: serializeWBWT\<close>

definition WBWT_MAGIC :: nat where
  "WBWT_MAGIC = 1463965524"

definition WBWT_VERSION :: nat where
  "WBWT_VERSION = 4"

fun common_prefix :: "bytes \<Rightarrow> bytes \<Rightarrow> nat" where
  "common_prefix (a # as) (b # bs) = (if a = b then common_prefix as bs + 1 else 0)"
| "common_prefix as bs = 0"

text \<open>The loop over the dictionary: prefix length, suffix length, suffix bytes.\<close>

fun write_dictionary :: "jsstring list \<Rightarrow> bytes \<Rightarrow> bytes \<Rightarrow> bytes" where
  "write_dictionary [] prevBytes writer = writer"
| "write_dictionary (entry # entries) prevBytes writer =
     (let bs = encode_utf8 entry;
          prefix = common_prefix prevBytes bs;
          suffix = drop prefix bs
      in write_dictionary entries bs
           (writeVarint (writeVarint writer prefix) (length suffix) @ suffix))"

definition serializeWBWT :: "payload \<Rightarrow> bytes option" where
  "serializeWBWT p =
     (let alphabetSize = length (dictionary p) + 1;
          symbols = mtfToSymbols (mtf p);
          w1 = pushUint32LE (pushUint32LE [] WBWT_MAGIC) WBWT_VERSION;
          w2 = writeVarint w1 (length (dictionary p));
          w3 = writeVarint w2 (length (mtf p));
          w4 = writeVarint w3 (primaryIndex p);
          w5 = writeVarint w4 (length symbols);
          w6 = write_dictionary (dictionary p) [] w5
      in case entropyEncodeSymbols symbols (alphabetSize + 1) of
           None \<Rightarrow> None
         | Some entropyPacked \<Rightarrow> Some (w6 @ entropyPacked))"

subsection \<open>Container: deserializeWBWT\<close>

text \<open>
  \<open>target.set(source, position)\<close> for a source that fits into the target from the
  position on.
\<close>

definition set_bytes :: "bytes \<Rightarrow> bytes \<Rightarrow> nat \<Rightarrow> bytes" where
  "set_bytes target source position =
     take position target @ source @ drop (position + length source) target"

text \<open>
  The dictionary of a version 4 frame; the first argument counts the entries left. Every
  entry gets a new array of \<open>prefix + suffixLength\<close> bytes, two numbers read from the
  frame. \<open>prevBytes.subarray(0, prefix)\<close> is not longer than \<open>prefix\<close> and \<open>suffix\<close> not
  longer than \<open>suffixLength\<close>, so both fit.
\<close>

fun read_front_coded ::
  "engine \<Rightarrow> nat \<Rightarrow> bytes \<Rightarrow> nat \<Rightarrow> bytes \<Rightarrow> js_error + jsstring list \<times> nat"
where
  "read_front_coded e 0 bs offset prevBytes = Inr ([], offset)"
| "read_front_coded e (Suc n) bs offset prevBytes =
     (let prefixParsed = readVarint bs offset;
          suffixParsed = readVarint bs (snd prefixParsed);
          prefix = fst prefixParsed;
          suffixLength = fst suffixParsed;
          suffix = take suffixLength (drop (snd suffixParsed) bs)
      in case new_Uint8Array e (prefix + suffixLength) of
           Inl err \<Rightarrow> Inl err
         | Inr created \<Rightarrow>
             (let tokenBytes =
                    set_bytes
                      (if 0 < prefix then set_bytes created (take prefix prevBytes) 0 else created)
                      suffix prefix
              in case read_front_coded e n bs (snd suffixParsed + suffixLength) tokenBytes of
                   Inl err \<Rightarrow> Inl err
                 | Inr rest \<Rightarrow> Inr (decode_utf8 tokenBytes # fst rest, snd rest)))"

text \<open>
  The dictionary of a version 2 or 3 frame: length, then bytes. \<open>subarray\<close> creates no
  array.
\<close>

fun read_plain :: "nat \<Rightarrow> bytes \<Rightarrow> nat \<Rightarrow> jsstring list \<times> nat" where
  "read_plain 0 bs offset = ([], offset)"
| "read_plain (Suc n) bs offset =
     (let parsed = readVarint bs offset;
          slice = take (fst parsed) (drop (snd parsed) bs);
          rest = read_plain n bs (snd parsed + fst parsed)
      in (decode_utf8 slice # fst rest, snd rest))"

text \<open>
  The last part of \<open>deserializeWBWT\<close>, which decodes the \<open>mtf\<close> array from the bytes after
  the dictionary.
\<close>

definition read_mtf ::
  "engine \<Rightarrow> nat \<Rightarrow> bytes \<Rightarrow> nat \<Rightarrow> nat \<Rightarrow> nat \<Rightarrow> nat \<Rightarrow> (js_error + nat list) option"
where
  "read_mtf e version bs offset dictCount tokenCount symbolCount =
     (if version = WBWT_VERSION then
        (case entropyDecodeSymbols e (drop offset bs) symbolCount (dictCount + 2) of
           None \<Rightarrow> None
         | Some (Inl err) \<Rightarrow> Some (Inl err)
         | Some (Inr symbols) \<Rightarrow> Some (symbolsToMtf e symbols tokenCount))
      else
        (case (if version = 2 then Some (Inr (drop offset bs))
               else (let packedLengthParsed = readVarint bs offset
                     in entropyDecodeBytes e (drop (snd packedLengthParsed) bs)
                          (fst packedLengthParsed))) of
           None \<Rightarrow> None
         | Some (Inl err) \<Rightarrow> Some (Inl err)
         | Some (Inr mtfPacked) \<Rightarrow>
             (case decodeMtfRle e mtfPacked 0 tokenCount of
                None \<Rightarrow> None
              | Some (Inl err) \<Rightarrow> Some (Inl err)
              | Some (Inr mtfParsed) \<Rightarrow> Some (Inr (fst mtfParsed)))))"

text \<open>
  The result is \<open>None\<close> when the call does not return, \<open>Some (Inl err)\<close> when it throws and
  \<open>Some (Inr p)\<close> when it returns the payload \<open>p\<close>.
\<close>

definition deserializeWBWT :: "engine \<Rightarrow> bytes \<Rightarrow> (js_error + payload) option" where
  "deserializeWBWT e bs =
     (if readUint32LE bs 0 \<noteq> WBWT_MAGIC then Some (Inl InvalidHeader)
      else
        (let version = readUint32LE bs 4
         in if version \<noteq> 2 \<and> version \<noteq> 3 \<and> version \<noteq> WBWT_VERSION
            then Some (Inl UnsupportedVersion)
            else
              (let dictParsed = readVarint bs 8;
                   dictCount = fst dictParsed;
                   tokenParsed = readVarint bs (snd dictParsed);
                   tokenCount = fst tokenParsed;
                   primaryParsed = readVarint bs (snd tokenParsed);
                   symbolParsed =
                     (if version = WBWT_VERSION then readVarint bs (snd primaryParsed)
                      else (0, snd primaryParsed))
               in case (if version = WBWT_VERSION
                        then read_front_coded e dictCount bs (snd symbolParsed) []
                        else Inr (read_plain dictCount bs (snd symbolParsed))) of
                    Inl err \<Rightarrow> Some (Inl err)
                  | Inr dictRead \<Rightarrow>
                      (case read_mtf e version bs (snd dictRead) dictCount tokenCount
                              (fst symbolParsed) of
                         None \<Rightarrow> None
                       | Some (Inl err) \<Rightarrow> Some (Inl err)
                       | Some (Inr m) \<Rightarrow>
                           Some (Inr \<lparr>dictionary = fst dictRead,
                                      primaryIndex = fst primaryParsed, mtf = m\<rparr>)))))"

section \<open>Notions used in the properties\<close>

text \<open>
  A token that begins with a white-space character, a token list in which no two such
  tokens follow each other, and a token made of spaces only, of newlines only or of tabs
  only.
\<close>

definition starts_with_space :: "jsstring \<Rightarrow> bool" where
  "starts_with_space tok = (case tok of [] \<Rightarrow> False | c # _ \<Rightarrow> is_space c)"

fun no_adjacent_whitespace :: "jsstring list \<Rightarrow> bool" where
  "no_adjacent_whitespace (a # b # rest) =
     (\<not> (starts_with_space a \<and> starts_with_space b) \<and> no_adjacent_whitespace (b # rest))"
| "no_adjacent_whitespace toks = True"

definition single_whitespace_class :: "jsstring \<Rightarrow> bool" where
  "single_whitespace_class tok \<longleftrightarrow>
     list_all (\<lambda>c. c = 32) tok \<or> list_all (\<lambda>c. c = 10) tok \<or> list_all (\<lambda>c. c = 9) tok"

text \<open>
  The position of the first occurrence of an element in a list.
\<close>

fun index_of :: "'a list \<Rightarrow> 'a \<Rightarrow> nat" where
  "index_of [] x = 0"
| "index_of (y # ys) x = (if x = y then 0 else index_of ys x + 1)"

text \<open>
  The lexicographic order of two lists of numbers. On the code units of two strings it is
  the order in which JavaScript compares them; on their code points it is the code-point
  order. The code points of a string are what \<open>codePointAt\<close> reads: a surrogate pair is
  one code point, any other code unit stands for itself.
\<close>

fun lex_less :: "nat list \<Rightarrow> nat list \<Rightarrow> bool" where
  "lex_less [] [] = False"
| "lex_less [] (b # bs) = True"
| "lex_less (a # as) [] = False"
| "lex_less (a # as) (b # bs) = (a < b \<or> a = b \<and> lex_less as bs)"

fun code_points :: "jsstring \<Rightarrow> nat list" where
  "code_points (c # d # rest) =
     (if is_high_surrogate c \<and> is_low_surrogate d
      then (65536 + (c - 55296) * 1024 + (d - 56320)) # code_points rest
      else c # code_points (d # rest))"
| "code_points cs = cs"

definition increasing_by_code_units :: "jsstring list \<Rightarrow> bool" where
  "increasing_by_code_units dict = sorted_wrt lex_less dict"

definition increasing_by_code_points :: "jsstring list \<Rightarrow> bool" where
  "increasing_by_code_points dict =
     sorted_wrt (\<lambda>a b. lex_less (code_points a) (code_points b)) dict"


section \<open>Evaluation rules\<close>

text \<open>
  Rules that unfold the model on concrete inputs, and the stages of the two pipelines,
  so that each stage is evaluated on its own.
\<close>

lemmas ta_eval = at_def at_opt_def to_u32_def put_def incr_def js_less_def

lemmas bwt_eval = burrowsWheelerTransform_def buildCyclicSuffixArray_def sort_by_def
  compareRotation_def compareRotation_from.simps inverseBurrowsWheelerTransform_def Let_def

lemma restore_rows_unfold:
  "restore_rows nxt lastColumn n row restored =
     (if n = 0 then restored
      else restore_rows nxt lastColumn (n - 1) (at_opt nxt row)
             (put restored (Some (n - 1)) (at_opt lastColumn (at_opt nxt row))))"
  by (cases n) (simp_all add: Let_def)

lemmas tok_eval = tokenize_def is_alnum_def is_alpha_def is_upper_def is_lower_def is_digit_def
  is_space_def is_other_def is_joiner_def

lemmas norm_eval = normalizeToken_def startsWith_prefix_def SPACE_PATTERN_def NEWLINE_PATTERN_def
  TAB_PATTERN_def NUMBER_PATTERN_def WORD_PATTERN_def toLowerCase_ascii_def toUpperCase_ascii_def titleCase_ascii_def
  digit36_def toString36.simps CONTROL_PREFIX_def TOKEN_WS_SPACE_def TOKEN_WS_NEWLINE_def
  TOKEN_WS_TAB_def TOKEN_NUM_def TOKEN_CASE_UPPER_def TOKEN_CASE_TITLE_def TOKEN_ESCAPE_def

lemma shift_lists_unfold:
  "shift_lists j lst positions =
     (if j = 0 then (lst, positions)
      else shift_lists (j - 1) (put lst (Some j) (at lst (j - 1)))
             (put positions (at lst (j - 1)) (Some j)))"
  by (cases j) (simp_all add: Let_def)

lemma shift_list_unfold:
  "shift_list j lst =
     (if j = 0 then lst else shift_list (j - 1) (put lst (Some j) (at lst (j - 1))))"
  by (cases j) simp_all

lemma replicate_unfold: "replicate n x = (if n = 0 then [] else x # replicate (n - 1) x)"
  by (cases n) simp_all

lemmas list_eval = upt_conv_Cons replicate_unfold

lemmas mtf_eval = moveToFrontEncode_def moveToFrontDecode_def shift_lists_unfold shift_list_unfold

lemmas render_eval = renderTokens_def digit36_value_def strip_sign_def parseInt36_def
  run_count_def repeat_def ids_to_tokens_def SENTINEL_ID_def is_ascii_def toLowerCase_def
  toUpperCase_def titleCase_def

lemma wbwtCompress_stages:
  assumes "normalizeTokens (tokenize text) = tokens" and "tokens \<noteq> []"
    and "tokensToIds tokens = (ids, dict)"
    and "burrowsWheelerTransform (ids @ [0]) = (lastColumn, p)"
    and "moveToFrontEncode lastColumn alphabetSize = m" and "alphabetSize = length dict + 1"
  shows "wbwtCompress text = \<lparr>dictionary = dict, primaryIndex = p, mtf = m\<rparr>"
  using assms by (simp add: wbwtCompress_def SENTINEL_ID_def)

lemma wbwtDecompress_stages:
  assumes "dict \<noteq> []" and "m \<noteq> []" and "alphabetSize = length dict + 1"
    and "moveToFrontDecode m alphabetSize = lastColumn"
    and "inverseBurrowsWheelerTransform lastColumn p alphabetSize = ids"
    and "ids_to_tokens dict ids = tokens"
    and "renderTokens ops tokens = r"
  shows "wbwtDecompress ops (Some \<lparr>dictionary = dict, primaryIndex = p, mtf = m\<rparr>) = r"
  using assms by (simp add: wbwtDecompress_def)

lemma write_pending_unfold:
  "write_pending w fill n = (if n = 0 then w else write_pending (writeBit w fill) fill (n - 1))"
  by (cases n) simp_all

lemma readBits_loop_unfold:
  "readBits_loop n v r =
     (if n = 0 then (unat v, r)
      else (case readBit r of (b, r') \<Rightarrow> readBits_loop (n - 1) (push_bit 1 v OR word_of_nat b) r'))"
  by (cases n) simp_all

lemma decode_all_unfold:
  "decode_all n m d =
     (if n = 0 then Some []
      else
        (case decodeSymbol d m of
           None \<Rightarrow> None
         | Some (symbolIndex, d') \<Rightarrow>
             (case update_model m symbolIndex of
                None \<Rightarrow> None
              | Some m' \<Rightarrow>
                  (case decode_all (n - 1) m' d' of
                     None \<Rightarrow> None
                   | Some out \<Rightarrow> Some ((symbolIndex - 1) # out)))))"
  by (cases n) (auto split: option.splits)

lemma read_front_coded_unfold:
  "read_front_coded e n bs offset prevBytes =
     (if n = 0 then Inr ([], offset)
      else
        (let prefixParsed = readVarint bs offset;
             suffixParsed = readVarint bs (snd prefixParsed);
             prefix = fst prefixParsed;
             suffixLength = fst suffixParsed;
             suffix = take suffixLength (drop (snd suffixParsed) bs)
         in case new_Uint8Array e (prefix + suffixLength) of
              Inl err \<Rightarrow> Inl err
            | Inr created \<Rightarrow>
                (let tokenBytes =
                       set_bytes
                         (if 0 < prefix then set_bytes created (take prefix prevBytes) 0
                          else created)
                         suffix prefix
                 in case read_front_coded e (n - 1) bs (snd suffixParsed + suffixLength)
                           tokenBytes of
                      Inl err \<Rightarrow> Inl err
                    | Inr rest \<Rightarrow> Inr (decode_utf8 tokenBytes # fst rest, snd rest))))"
  by (cases n) (simp_all add: Let_def split: sum.splits)

lemmas fen_eval = add_at_def new_fenwick_def new_FenwickTree_def lowbit_def tree_add.simps reset_def sum_loop.simps
  fw_sum_def freq_at_def fw_add_def rescale_def top_bit.simps descend.simps findByCumulative_def
  ENTROPY_MAX_TOTAL_def update_model_def

lemmas bits_eval = pushByte_def pushUint32LE_def varint_bytes.simps writeVarint_def
  readVarint_loop.simps readVarint_def byte_or_zero_def readUint32LE_def new_bit_writer_def
  writeBit_def finish_bits_def new_bit_reader_def readBit_def readBits_def readBits_loop_unfold

lemmas coder_eval = ENTROPY_TOP_VALUE_def ENTROPY_FIRST_QTR_def ENTROPY_HALF_def
  ENTROPY_THIRD_QTR_def new_encoder_def write_pending_unfold outputBitAndPending_def narrow_def
  encode_renorm.simps encodeSymbol_def finish_encoder_def entropyEncodeSymbols_def new_decoder_def
  shift_in_def decode_renorm.simps decodeSymbol_def decode_all_unfold entropyDecodeSymbols_def

lemmas utf8_eval = is_high_surrogate_def is_low_surrogate_def utf8_bytes_def encode_utf8_def
  code_units_def drop_bom_def decode_utf8_def

lemmas frame_eval = WBWT_MAGIC_def WBWT_VERSION_def set_bytes_def read_front_coded_unfold

lemmas engine_eval = new_Uint8Array_def new_Uint32Array_def

lemma serializeWBWT_stages:
  assumes "mtfToSymbols m = symbols"
    and "entropyEncodeSymbols symbols alphabetSize = Some packed"
    and "alphabetSize = length dict + 1 + 1"
    and "write_dictionary dict []
           (writeVarint (writeVarint (writeVarint (writeVarint
              (pushUint32LE (pushUint32LE [] WBWT_MAGIC) WBWT_VERSION) dictCount)
              tokenCount) p) symbolCount) = front"
    and "dictCount = length dict" and "tokenCount = length m" and "symbolCount = length symbols"
  shows "serializeWBWT \<lparr>dictionary = dict, primaryIndex = p, mtf = m\<rparr> = Some (front @ packed)"
  using assms by (simp add: serializeWBWT_def)

lemma deserialize_v4_stages:
  assumes "readUint32LE bs 0 = WBWT_MAGIC" and "readUint32LE bs 4 = 4"
    and "readVarint bs 8 = (dictCount, o1)" and "readVarint bs o1 = (tokenCount, o2)"
    and "readVarint bs o2 = (p, o3)" and "readVarint bs o3 = (symbolCount, o4)"
    and "read_front_coded e dictCount bs o4 [] = Inr (dict, o5)"
    and "entropyDecodeSymbols e packed symbolCount alphabetSize = Some (Inr symbols)"
    and "packed = drop o5 bs" and "alphabetSize = dictCount + 2"
    and "symbolsToMtf e symbols tokenCount = Inr m"
  shows "deserializeWBWT e bs = Some (Inr \<lparr>dictionary = dict, primaryIndex = p, mtf = m\<rparr>)"
  using assms by (simp add: deserializeWBWT_def read_mtf_def WBWT_VERSION_def)

lemma deserialize_v4_dictionary_throws:
  assumes "readUint32LE bs 0 = WBWT_MAGIC" and "readUint32LE bs 4 = 4"
    and "readVarint bs 8 = (dictCount, o1)" and "readVarint bs o1 = (tokenCount, o2)"
    and "readVarint bs o2 = (p, o3)" and "readVarint bs o3 = (symbolCount, o4)"
    and "read_front_coded e dictCount bs o4 [] = Inl err"
  shows "deserializeWBWT e bs = Some (Inl err)"
  using assms by (simp add: deserializeWBWT_def WBWT_VERSION_def)

lemma deserialize_v4_symbols_throw:
  assumes "readUint32LE bs 0 = WBWT_MAGIC" and "readUint32LE bs 4 = 4"
    and "readVarint bs 8 = (dictCount, o1)" and "readVarint bs o1 = (tokenCount, o2)"
    and "readVarint bs o2 = (p, o3)" and "readVarint bs o3 = (symbolCount, o4)"
    and "read_front_coded e dictCount bs o4 [] = Inr (dict, o5)"
    and "entropyDecodeSymbols e packed symbolCount alphabetSize = Some (Inl err)"
    and "packed = drop o5 bs" and "alphabetSize = dictCount + 2"
  shows "deserializeWBWT e bs = Some (Inl err)"
  using assms by (simp add: deserializeWBWT_def read_mtf_def WBWT_VERSION_def)

lemma compress_dictionary_stages:
  assumes "normalizeTokens (tokenize text) = tokens" and "tokens \<noteq> []"
    and "tokensToIds tokens = (ids, dict)"
  shows "dictionary (wbwtCompress text) = dict"
  using assms by (simp add: wbwtCompress_def Let_def split: prod.splits)

section \<open>Properties\<close>

subsection \<open>The case of word tokens\<close>

text \<open>
  \<open>normalizeTokens\<close> changes the case of a token that matches \<open>WORD_PATTERN\<close>. Such a
  token is a string of ASCII code units, on which the functions of every platform are
  the ASCII ones.
\<close>

lemma is_alpha_ascii: "is_alpha c \<Longrightarrow> c < 128"
  by (auto simp: is_alpha_def is_upper_def is_lower_def)

lemma is_ascii_append: "is_ascii (xs @ ys) \<longleftrightarrow> is_ascii xs \<and> is_ascii ys"
  by (simp add: is_ascii_def)

lemma letters_ascii: "is_ascii (takeWhile is_alpha s)"
  unfolding is_ascii_def list_all_iff
  by (auto dest: set_takeWhileD is_alpha_ascii)

lemma word_pattern_groups_ascii: "word_pattern_groups s \<Longrightarrow> is_ascii s"
proof (induction s rule: word_pattern_groups.induct)
  case 1
  then show ?case by (simp add: is_ascii_def)
next
  case (2 c)
  then show ?case by simp
next
  case (3 c d rest)
  then have c: "c < 128" and tail: "is_ascii (dropWhile is_alpha (d # rest))"
    by (auto simp: is_joiner_def)
  have "is_ascii (takeWhile is_alpha (d # rest) @ dropWhile is_alpha (d # rest))"
    using tail letters_ascii [of "d # rest"] by (simp only: is_ascii_append)
  then have "is_ascii (d # rest)" by (simp only: takeWhile_dropWhile_id)
  with c show ?case by (simp add: is_ascii_def)
qed

lemma WORD_PATTERN_ascii: "WORD_PATTERN token \<Longrightarrow> is_ascii token"
proof -
  assume "WORD_PATTERN token"
  then have "word_pattern_groups (dropWhile is_alpha token)"
    by (auto simp: WORD_PATTERN_def split: list.splits)
  then have "is_ascii (takeWhile is_alpha token @ dropWhile is_alpha token)"
    using letters_ascii [of token] word_pattern_groups_ascii by (simp only: is_ascii_append)
  then show ?thesis by (simp only: takeWhile_dropWhile_id)
qed

lemma word_case_mapping:
  assumes "WORD_PATTERN token"
  shows "toLowerCase ops token = toLowerCase_ascii token"
    and "toUpperCase ops token = toUpperCase_ascii token"
    and "titleCase ops token = titleCase_ascii token"
proof -
  from assms have a: "is_ascii token" by (rule WORD_PATTERN_ascii)
  then have "is_ascii (take 1 token)" and "is_ascii (drop 1 token)"
    by (auto simp: is_ascii_def list_all_iff dest: in_set_takeD in_set_dropD)
  with a show "toLowerCase ops token = toLowerCase_ascii token"
    and "toUpperCase ops token = toUpperCase_ascii token"
    and "titleCase ops token = titleCase_ascii token"
    by (simp_all add: toLowerCase_def toUpperCase_def titleCase_def titleCase_ascii_def)
qed

subsection \<open>The inverse transform\<close>

lemma bwt_120: "burrowsWheelerTransform ([1, 2] @ [0]) = ([2, 0, 1], 1)"
  by (simp add: bwt_eval ta_eval list_eval)

lemma ibwt_201: "inverseBurrowsWheelerTransform [2, 0, 1] 1 3 = [0, 2, 1]"
  by (simp add: bwt_eval ta_eval list_eval restore_rows_unfold)

text \<open>
  C3. The id array \<open>[1, 2, 0]\<close> holds the sentinel 0 exactly once and every id is below
  the alphabet size 3. The forward transform gives the last column \<open>[2, 0, 1]\<close> and the
  primary index 1; the inverse transform applied to them returns \<open>[0, 2, 1]\<close>, the array
  read backwards, and not \<open>[1, 2, 0]\<close>: the last loop follows \<open>next\<close> forwards through
  the rotations while it fills \<open>restored\<close> from the last index down.
\<close>

theorem inverse_bwt_reverses:
  "burrowsWheelerTransform [1, 2, 0] = ([2, 0, 1], 1) \<and>
   inverseBurrowsWheelerTransform [2, 0, 1] 1 3 = [0, 2, 1] \<and>
   inverseBurrowsWheelerTransform [2, 0, 1] 1 3 \<noteq> [1, 2, 0]"
  by (simp add: bwt_eval ta_eval list_eval restore_rows_unfold)

subsection \<open>Compression followed by decompression\<close>

lemma hello_tokens:
  "normalizeTokens (tokenize [72, 101, 108, 108, 111]) = [[31, 99], [104, 101, 108, 108, 111]]"
  by (simp add: tok_eval norm_eval)

lemma hello_ids:
  "tokensToIds [[31, 99], [104, 101, 108, 108, 111]] =
     ([1, 2], [[31, 99], [104, 101, 108, 108, 111]])"
  by (simp add: tokensToIds_def ta_eval)

lemma mtf_201: "moveToFrontEncode [2, 0, 1] 3 = [2, 1, 2]"
  by (simp add: mtf_eval ta_eval list_eval)

lemma hello_compress:
  "wbwtCompress [72, 101, 108, 108, 111] =
     \<lparr>dictionary = [[31, 99], [104, 101, 108, 108, 111]], primaryIndex = 1, mtf = [2, 1, 2]\<rparr>"
  by (rule wbwtCompress_stages [OF hello_tokens _ hello_ids bwt_120 mtf_201]) simp_all

lemma unmtf_212: "moveToFrontDecode [2, 1, 2] 3 = [2, 0, 1]"
  by (simp add: mtf_eval ta_eval list_eval)

lemma hello_back_tokens:
  "ids_to_tokens [[31, 99], [104, 101, 108, 108, 111]] [0, 2, 1] =
     [Some [104, 101, 108, 108, 111], Some [31, 99]]"
  by (simp add: render_eval ta_eval)

lemma hello_render:
  "renderTokens ops [Some [104, 101, 108, 108, 111], Some [31, 99]] = Inr [104, 101, 108, 108, 111]"
  by (simp add: render_eval norm_eval)

text \<open>
  C1. The text \<open>Hello\<close> is normalized to the title-case marker followed by \<open>hello\<close>.
  \<open>wbwtDecompress\<close> gets the two tokens back in the opposite order, because the inverse
  transform returns the ids reversed; the marker then comes last and marks nothing, and
  the result is \<open>hello\<close>, not the text that was compressed.
\<close>

theorem decompress_compress_Hello:
  "wbwtDecompress ops (Some (wbwtCompress [72, 101, 108, 108, 111])) =
     Inr [104, 101, 108, 108, 111] \<and>
   wbwtDecompress ops (Some (wbwtCompress [72, 101, 108, 108, 111])) \<noteq>
     Inr [72, 101, 108, 108, 111]"
proof -
  have "wbwtDecompress ops (Some (wbwtCompress [72, 101, 108, 108, 111])) =
          Inr [104, 101, 108, 108, 111]"
    unfolding hello_compress
    by (rule wbwtDecompress_stages [OF _ _ _ unmtf_212 ibwt_201 hello_back_tokens hello_render])
      simp_all
  then show ?thesis by simp
qed

subsection \<open>The container and the byte order mark\<close>

lemma bom_tokens: "normalizeTokens (tokenize [65279]) = [[65279]]"
  by (simp add: tok_eval norm_eval)

lemma bom_ids: "tokensToIds [[65279]] = ([1], [[65279]])"
  by (simp add: tokensToIds_def ta_eval)

lemma bwt_10: "burrowsWheelerTransform ([1] @ [0]) = ([1, 0], 1)"
  by (simp add: bwt_eval ta_eval list_eval)

lemma mtf_10: "moveToFrontEncode [1, 0] 2 = [1, 1]"
  by (simp add: mtf_eval ta_eval list_eval)

lemma bom_compress:
  "wbwtCompress [65279] = \<lparr>dictionary = [[65279]], primaryIndex = 1, mtf = [1, 1]\<rparr>"
  by (rule wbwtCompress_stages [OF bom_tokens _ bom_ids bwt_10 mtf_10]) simp_all

lemma symbols_11: "mtfToSymbols [1, 1] = [2, 2]"
  by (simp add: mtfToSymbols_def ta_eval)

lemma encode_22: "entropyEncodeSymbols [2, 2] 3 = Some [224]"
  by (simp add: coder_eval fen_eval ta_eval bits_eval list_eval Let_def)

lemma bom_front:
  "write_dictionary [[65279]] []
     (writeVarint (writeVarint (writeVarint (writeVarint
        (pushUint32LE (pushUint32LE [] WBWT_MAGIC) WBWT_VERSION) 1) 2) 1) 2) =
     [84, 87, 66, 87, 4, 0, 0, 0, 1, 2, 1, 2, 0, 3, 239, 187, 191]"
  by (simp add: bits_eval utf8_eval frame_eval)

lemma bom_serialize:
  "serializeWBWT \<lparr>dictionary = [[65279]], primaryIndex = 1, mtf = [1, 1]\<rparr> =
     Some ([84, 87, 66, 87, 4, 0, 0, 0, 1, 2, 1, 2, 0, 3, 239, 187, 191] @ [224])"
  by (rule serializeWBWT_stages [OF symbols_11 encode_22 _ bom_front]) simp_all

lemma decode_224:
  "4 \<le> max_uint32_length e \<Longrightarrow> entropyDecodeSymbols e [224] 2 3 = Some (Inr [2, 2])"
  by (simp add: coder_eval fen_eval engine_eval ta_eval bits_eval list_eval Let_def)

lemma decode_224_throws:
  "max_uint32_length e < 4 \<Longrightarrow> entropyDecodeSymbols e [224] 2 3 = Some (Inl RangeError)"
  by (simp add: entropyDecodeSymbols_def new_FenwickTree_def engine_eval)

lemma mtf_of_22: "2 \<le> max_uint32_length e \<Longrightarrow> symbolsToMtf e [2, 2] 2 = Inr [1, 1]"
  by (simp add: symbolsToMtf_def engine_eval zero_fill.simps ta_eval list_eval)

lemma bom_dictionary:
  "3 \<le> max_uint8_length e \<Longrightarrow>
     read_front_coded e 1 [84, 87, 66, 87, 4, 0, 0, 0, 1, 2, 1, 2, 0, 3, 239, 187, 191, 224] 12 [] =
       Inr ([[]], 17)"
  by (simp add: bits_eval utf8_eval frame_eval engine_eval at_def list_eval)

lemma bom_dictionary_throws:
  "max_uint8_length e < 3 \<Longrightarrow>
     read_front_coded e 1 [84, 87, 66, 87, 4, 0, 0, 0, 1, 2, 1, 2, 0, 3, 239, 187, 191, 224] 12 [] =
       Inl RangeError"
  by (simp add: bits_eval frame_eval engine_eval at_def)

lemma bom_deserialize:
  "deserializeWBWT e [84, 87, 66, 87, 4, 0, 0, 0, 1, 2, 1, 2, 0, 3, 239, 187, 191, 224] =
     (if max_uint8_length e < 3 \<or> max_uint32_length e < 4 then Some (Inl RangeError)
      else Some (Inr \<lparr>dictionary = [[]], primaryIndex = 1, mtf = [1, 1]\<rparr>))"
proof -
  let ?bs = "[84, 87, 66, 87, 4, 0, 0, 0, 1, 2, 1, 2, 0, 3, 239, 187, 191, 224] :: nat list"
  consider "max_uint8_length e < 3" | "3 \<le> max_uint8_length e" "max_uint32_length e < 4"
    | "3 \<le> max_uint8_length e" "4 \<le> max_uint32_length e"
    by linarith
  then show ?thesis
  proof cases
    case 1
    have "deserializeWBWT e ?bs = Some (Inl RangeError)"
      by (rule deserialize_v4_dictionary_throws [where ?o1.0 = 9 and ?o2.0 = 10 and ?o3.0 = 11
            and ?o4.0 = 12 and dictCount = 1 and tokenCount = 2 and symbolCount = 2,
            OF _ _ _ _ _ _ bom_dictionary_throws [OF 1]])
        (simp_all add: bits_eval frame_eval at_def)
    with 1 show ?thesis by simp
  next
    case 2
    have "deserializeWBWT e ?bs = Some (Inl RangeError)"
      by (rule deserialize_v4_symbols_throw [where ?o1.0 = 9 and ?o2.0 = 10 and ?o3.0 = 11
            and ?o4.0 = 12 and dictCount = 1 and tokenCount = 2 and symbolCount = 2,
            OF _ _ _ _ _ _ bom_dictionary [OF 2(1)] decode_224_throws [OF 2(2)]])
        (simp_all add: bits_eval frame_eval at_def)
    with 2 show ?thesis by simp
  next
    case 3
    from 3(2) have two: "2 \<le> max_uint32_length e" by simp
    have "deserializeWBWT e ?bs = Some (Inr \<lparr>dictionary = [[]], primaryIndex = 1, mtf = [1, 1]\<rparr>)"
      by (rule deserialize_v4_stages [where ?o1.0 = 9 and ?o2.0 = 10 and ?o3.0 = 11
            and ?o4.0 = 12 and dictCount = 1 and tokenCount = 2 and symbolCount = 2,
            OF _ _ _ _ _ _ bom_dictionary [OF 3(1)] decode_224 [OF 3(2)] _ _ mtf_of_22 [OF two]])
        (simp_all add: bits_eval frame_eval at_def)
    with 3 show ?thesis by simp
  qed
qed

text \<open>
  C2. The text that is the single character U+FEFF is one white-space token, kept as it
  is in the dictionary. \<open>serializeWBWT\<close> writes its UTF-8 bytes EF BB BF;
  \<open>deserializeWBWT\<close> decodes every entry with a \<open>TextDecoder\<close> that removes a leading
  byte order mark, and returns the empty string in its place: the dictionary read back
  differs from the one that was written. This is the result on every engine that creates
  the arrays of the call, the longest of which are the 3 bytes of the entry and the 4
  counters of the model; on any other engine the call throws a RangeError.
\<close>

theorem container_strips_leading_bom:
  "wbwtCompress [65279] = \<lparr>dictionary = [[65279]], primaryIndex = 1, mtf = [1, 1]\<rparr> \<and>
   serializeWBWT (wbwtCompress [65279]) =
     Some [84, 87, 66, 87, 4, 0, 0, 0, 1, 2, 1, 2, 0, 3, 239, 187, 191, 224] \<and>
   deserializeWBWT e [84, 87, 66, 87, 4, 0, 0, 0, 1, 2, 1, 2, 0, 3, 239, 187, 191, 224] =
     (if max_uint8_length e < 3 \<or> max_uint32_length e < 4 then Some (Inl RangeError)
      else Some (Inr \<lparr>dictionary = [[]], primaryIndex = 1, mtf = [1, 1]\<rparr>)) \<and>
   dictionary \<lparr>dictionary = [[]], primaryIndex = 1, mtf = [1, 1]\<rparr> \<noteq> dictionary (wbwtCompress [65279])"
  using bom_compress bom_serialize bom_deserialize [of e] by simp

subsection \<open>Whitespace tokens\<close>

lemma alnum_not_space: "is_alnum c \<Longrightarrow> \<not> is_space c"
  by (auto simp: is_alnum_def is_alpha_def is_upper_def is_lower_def is_digit_def is_space_def)

lemma joiner_not_space: "is_joiner c \<Longrightarrow> \<not> is_space c"
  by (auto simp: is_joiner_def is_space_def)

lemma word_groups_chars: "c \<in> set (fst (word_groups xs)) \<Longrightarrow> \<not> is_space c"
proof (induction xs rule: word_groups.induct)
  case (3 a d rest)
  show ?case
  proof (cases "is_joiner a \<and> is_alnum d")
    case True
    with 3 show ?thesis
      by (auto simp: alnum_not_space joiner_not_space split: prod.splits dest: set_takeWhileD)
  next
    case False
    with 3 show ?thesis by auto
  qed
qed simp_all

lemma match_tokens_concat: "concat (match_tokens xs) = xs"
proof (induction xs rule: match_tokens.induct)
  case (2 c cs)
  show ?case
  proof (cases "is_alnum c")
    case True
    have "takeWhile is_alnum (c # cs) @ fst (word_groups (dropWhile is_alnum (c # cs))) @
            snd (word_groups (dropWhile is_alnum (c # cs))) = c # cs"
      by (simp only: word_groups_concat takeWhile_dropWhile_id)
    with True 2 show ?thesis by simp
  next
    case False
    note nal = this
    show ?thesis
    proof (cases "is_space c")
      case True
      have "takeWhile is_space (c # cs) @ dropWhile is_space (c # cs) = c # cs"
        by (rule takeWhile_dropWhile_id)
      with True nal 2 show ?thesis by simp
    next
      case False
      have "takeWhile is_other (c # cs) @ dropWhile is_other (c # cs) = c # cs"
        by (rule takeWhile_dropWhile_id)
      with False nal 2 show ?thesis by simp
    qed
  qed
qed simp

lemma match_tokens_classes:
  "tok \<in> set (match_tokens xs) \<Longrightarrow>
     tok \<noteq> [] \<and> (list_all is_space tok \<or> list_all (\<lambda>c. \<not> is_space c) tok)"
proof (induction xs rule: match_tokens.induct)
  case (2 c cs)
  show ?case
  proof (cases "is_alnum c")
    case True
    have "list_all (\<lambda>c. \<not> is_space c)
            (takeWhile is_alnum (c # cs) @ fst (word_groups (dropWhile is_alnum (c # cs))))"
      by (auto simp: list_all_iff alnum_not_space word_groups_chars dest: set_takeWhileD)
    with True 2 show ?thesis by auto
  next
    case False
    note nal = this
    show ?thesis
    proof (cases "is_space c")
      case True
      have "list_all is_space (takeWhile is_space (c # cs))"
        by (auto simp: list_all_iff dest: set_takeWhileD)
      with True nal 2 show ?thesis by auto
    next
      case False
      have "list_all (\<lambda>c. \<not> is_space c) (takeWhile is_other (c # cs))"
        by (auto simp: list_all_iff is_other_def dest: set_takeWhileD)
      with False nal 2 show ?thesis by (auto simp: is_other_def)
    qed
  qed
qed simp

lemma match_tokens_first:
  "match_tokens xs = tok # toks \<Longrightarrow> xs \<noteq> [] \<and> tok \<noteq> [] \<and> hd tok = hd xs"
  by (cases xs) (auto split: if_splits simp: is_other_def)

lemma first_after_space:
  "match_tokens (dropWhile is_space xs) = tok # toks \<Longrightarrow> \<not> starts_with_space tok"
proof -
  assume a: "match_tokens (dropWhile is_space xs) = tok # toks"
  from match_tokens_first [OF a]
  have ne: "dropWhile is_space xs \<noteq> []" and t: "tok \<noteq> []"
    and h: "hd tok = hd (dropWhile is_space xs)" by simp_all
  from ne have "\<not> is_space (hd (dropWhile is_space xs))" by (rule hd_dropWhile)
  with h t show ?thesis by (cases tok) (simp_all add: starts_with_space_def)
qed

lemma match_tokens_adjacent: "no_adjacent_whitespace (match_tokens xs)"
proof (induction xs rule: match_tokens.induct)
  case (2 c cs)
  show ?case
  proof (cases "is_alnum c")
    case True
    then have "\<not> starts_with_space
                 (takeWhile is_alnum (c # cs) @ fst (word_groups (dropWhile is_alnum (c # cs))))"
      by (simp add: starts_with_space_def alnum_not_space)
    with True 2 show ?thesis
      by (cases "match_tokens (snd (word_groups (dropWhile is_alnum (c # cs))))") simp_all
  next
    case False
    note nal = this
    show ?thesis
    proof (cases "is_space c")
      case True
      show ?thesis
      proof (cases "match_tokens (dropWhile is_space (c # cs))")
        case Nil
        with True nal show ?thesis by simp
      next
        case (Cons tok toks)
        from first_after_space [OF Cons] have "\<not> starts_with_space tok" .
        with True nal 2 Cons show ?thesis by simp
      qed
    next
      case False
      then have "\<not> starts_with_space (takeWhile is_other (c # cs))"
        using nal by (simp add: starts_with_space_def is_other_def)
      with False nal 2 show ?thesis
        by (cases "match_tokens (dropWhile is_other (c # cs))") simp_all
    qed
  qed
qed simp

text \<open>
  C5, as stated, fails: the text made of a space and a newline is one token that holds
  both classes. The third alternative of \<open>TOKEN_PATTERN\<close> is \<open>\s+\<close>, any run of
  white space.
\<close>

theorem tokenize_mixed_run_counterexample:
  "tokenize [32, 10] = [[32, 10]] \<and> is_space 32 \<and> is_space 10 \<and>
   \<not> single_whitespace_class [32, 10]"
  by (simp add: tok_eval single_whitespace_class_def)

text \<open>
  C5, amended. The tokens of a text concatenate to the text, none is empty, each is made
  of white space only or holds none, and no two white-space tokens are adjacent: a
  white-space token is a maximal run of white-space characters, of whatever classes, and
  a run that mixes classes is one token.
\<close>

theorem tokenize_whitespace_runs:
  "concat (tokenize t) = t \<and>
   (\<forall>tok \<in> set (tokenize t).
      tok \<noteq> [] \<and> (list_all is_space tok \<or> list_all (\<lambda>c. \<not> is_space c) tok)) \<and>
   no_adjacent_whitespace (tokenize t)"
  by (simp add: tokenize_def match_tokens_concat match_tokens_classes match_tokens_adjacent)

theorem tokenize_whitespace_runs_witness:
  "tokenize [32, 10, 9, 98] = [[32, 10, 9], [98]] \<and> concat (tokenize [32, 10, 9, 98]) = [32, 10, 9, 98] \<and>
   list_all is_space [32, 10, 9] \<and> no_adjacent_whitespace (tokenize [32, 10, 9, 98])"
  using tokenize_whitespace_runs [of "[32, 10, 9, 98]"] by (simp add: tok_eval)

subsection \<open>The dictionary and the ids\<close>

lemma lex_less_iff: "lex_less a b \<longleftrightarrow> a < b"
  by (induction a b rule: lex_less.induct) simp_all

lemma index_of_append_in: "x \<in> set xs \<Longrightarrow> index_of (xs @ ys) x = index_of xs x"
  by (induction xs) auto

lemma index_of_append_new: "x \<notin> set xs \<Longrightarrow> index_of (xs @ x # ys) x = length xs"
  by (induction xs) auto

lemma index_of_less: "x \<in> set xs \<Longrightarrow> index_of xs x < length xs"
  by (induction xs) auto

lemma nth_index_of: "x \<in> set xs \<Longrightarrow> xs ! index_of xs x = x"
  by (induction xs) auto

lemma assign_first_seen_spec:
  assumes "distinct dict"
    and "\<And>t. m t = (if t \<in> set dict then Some (index_of dict t + 1) else None)"
  shows "\<exists>dict'. assign_first_seen tokens dict m ids =
                   (ids @ map (\<lambda>t. index_of dict' t + 1) tokens, dict') \<and>
                 distinct dict' \<and> set dict' = set dict \<union> set tokens \<and>
                 (\<exists>ext. dict' = dict @ ext)"
  using assms
proof (induction tokens arbitrary: dict m ids)
  case Nil
  then show ?case by simp
next
  case (Cons token tokens)
  show ?case
  proof (cases "token \<in> set dict")
    case True
    with Cons.prems have mt: "m token = Some (index_of dict token + 1)" by simp
    from Cons.IH [OF Cons.prems, of "ids @ [index_of dict token + 1]"]
    obtain dict' ext where
      r: "assign_first_seen tokens dict m (ids @ [index_of dict token + 1]) =
            ((ids @ [index_of dict token + 1]) @ map (\<lambda>t. index_of dict' t + 1) tokens, dict')"
      and d: "distinct dict'" and s: "set dict' = set dict \<union> set tokens"
      and e: "dict' = dict @ ext" by blast
    from True e have "index_of dict' token = index_of dict token"
      by (simp add: index_of_append_in)
    with mt r d s e True show ?thesis by auto
  next
    case False
    with Cons.prems have mt: "m token = None" by simp
    let ?dict1 = "dict @ [token]"
    let ?m1 = "m(token \<mapsto> length dict + 1)"
    have d1: "distinct ?dict1" using False Cons.prems(1) by simp
    have m1: "\<And>t. ?m1 t = (if t \<in> set ?dict1 then Some (index_of ?dict1 t + 1) else None)"
      using False Cons.prems(2) index_of_append_new [of token dict "[]"]
      by (auto simp: index_of_append_in)
    from Cons.IH [OF d1 m1, of "ids @ [length dict + 1]"]
    obtain dict' ext where
      r: "assign_first_seen tokens ?dict1 ?m1 (ids @ [length dict + 1]) =
            ((ids @ [length dict + 1]) @ map (\<lambda>t. index_of dict' t + 1) tokens, dict')"
      and d: "distinct dict'" and s: "set dict' = set ?dict1 \<union> set tokens"
      and e: "dict' = ?dict1 @ ext" by blast
    from False e have "index_of dict' token = length dict"
      by (simp add: index_of_append_new)
    moreover from e have "dict' = dict @ (token # ext)" by simp
    ultimately show ?thesis using mt r d s by auto
  qed
qed

lemma new_ids_spec:
  "distinct sd \<Longrightarrow>
     new_ids sd i m t = (if t \<in> set sd then Some (i + index_of sd t + 1) else m t)"
proof (induction sd arbitrary: i m)
  case Nil
  then show ?case by simp
next
  case (Cons a sd)
  then show ?case by auto
qed

lemma sort_distinct_is_sorted_list_of_set:
  "distinct xs \<Longrightarrow> sort xs = sorted_list_of_set (set xs)"
  by (simp add: sorted_list_of_set_sort_remdups distinct_remdups_id)

lemma tokensToIds_spec:
  assumes "length tokens < 2 ^ 32"
  shows "tokensToIds tokens =
           (map (\<lambda>tok. index_of (sorted_list_of_set (set tokens)) tok + 1) tokens,
            sorted_list_of_set (set tokens))"
proof -
  from assign_first_seen_spec [of "[]" Map.empty tokens "[]"]
  obtain dict where
    r: "assign_first_seen tokens [] Map.empty [] = (map (\<lambda>t. index_of dict t + 1) tokens, dict)"
    and d: "distinct dict" and s: "set dict = set tokens" by auto
  let ?sd = "sorted_list_of_set (set tokens)"
  have sd: "sort dict = ?sd" using d s by (simp add: sort_distinct_is_sorted_list_of_set)
  have dsd: "distinct ?sd" and ssd: "set ?sd = set tokens" by simp_all
  have len: "length ?sd = length dict"
    using d s by (metis sd length_sort)
  have "length dict = card (set tokens)" using d s by (metis distinct_card)
  also have "\<dots> \<le> length tokens" by (rule card_length)
  finally have small: "length dict < 2 ^ 32" using assms by simp
  have new: "\<And>t. t \<in> set tokens \<Longrightarrow>
               to_u32 (new_ids ?sd 0 Map.empty t) = index_of ?sd t + 1"
  proof -
    fix t assume "t \<in> set tokens"
    then have "index_of ?sd t < length ?sd" by (intro index_of_less) simp
    with len small have "index_of ?sd t + 1 < 2 ^ 32" by simp
    with \<open>t \<in> set tokens\<close> show "to_u32 (new_ids ?sd 0 Map.empty t) = index_of ?sd t + 1"
      by (simp add: new_ids_spec [OF dsd] to_u32_def)
  qed
  have each: "\<And>t. t \<in> set tokens \<Longrightarrow>
                to_u32 (at (0 # map (\<lambda>token. to_u32 (new_ids ?sd 0 Map.empty token)) dict)
                          (index_of dict t + 1)) = index_of ?sd t + 1"
  proof -
    fix t assume t: "t \<in> set tokens"
    then have i: "index_of dict t < length dict" using s by (simp add: index_of_less)
    have n: "dict ! index_of dict t = t" using t s by (simp add: nth_index_of)
    have "index_of ?sd t < length ?sd" using t by (intro index_of_less) simp
    with len small have b: "index_of ?sd t + 1 < 2 ^ 32" by simp
    show "to_u32 (at (0 # map (\<lambda>token. to_u32 (new_ids ?sd 0 Map.empty token)) dict)
                    (index_of dict t + 1)) = index_of ?sd t + 1"
      using i n new [OF t] b by (simp add: at_def to_u32_def)
  qed
  show ?thesis
    using each by (simp add: tokensToIds_def r sd Let_def)
qed

lemma tokensToIds_dictionary: "snd (tokensToIds tokens) = sorted_list_of_set (set tokens)"
proof -
  from assign_first_seen_spec [of "[]" Map.empty tokens "[]"]
  obtain dict where
    r: "assign_first_seen tokens [] Map.empty [] = (map (\<lambda>t. index_of dict t + 1) tokens, dict)"
    and d: "distinct dict" and s: "set dict = set tokens" by auto
  have "sort dict = sorted_list_of_set (set tokens)"
    using d s by (simp add: sort_distinct_is_sorted_list_of_set)
  then show ?thesis by (simp add: tokensToIds_def r Let_def)
qed

lemma compress_dictionary:
  "dictionary (wbwtCompress text) = sorted_list_of_set (set (normalizeTokens (tokenize text)))"
proof (cases "normalizeTokens (tokenize text) = []")
  case True
  then show ?thesis by (simp add: wbwtCompress_def)
next
  case False
  have "dictionary (wbwtCompress text) = snd (tokensToIds (normalizeTokens (tokenize text)))"
    using False by (simp add: wbwtCompress_def Let_def split: prod.splits)
  then show ?thesis by (simp add: tokensToIds_dictionary)
qed

lemma astral_tokens:
  "normalizeTokens (tokenize [65281, 32, 55357, 56832]) =
     [[65281], [31, 115], [49], [55357, 56832]]"
  by (simp add: tok_eval norm_eval)

lemma astral_ids:
  "tokensToIds [[65281], [31, 115], [49], [55357, 56832]] =
     ([4, 1, 2, 3], [[31, 115], [49], [55357, 56832], [65281]])"
  by (simp add: tokensToIds_def ta_eval)

lemma astral_dictionary:
  "dictionary (wbwtCompress [65281, 32, 55357, 56832]) =
     [[31, 115], [49], [55357, 56832], [65281]]"
  by (rule compress_dictionary_stages [OF astral_tokens _ astral_ids]) simp

text \<open>
  C4, as stated, fails on the order: \<open>sort()\<close> compares UTF-16 code units. The text made
  of U+FF01, a space and U+1F600 has the dictionary entry for U+1F600 (the surrogate pair
  D83D DE00) before the entry for U+FF01, although the code point 1F600 is the larger.
\<close>

theorem dictionary_code_point_order_counterexample:
  "dictionary (wbwtCompress [65281, 32, 55357, 56832]) =
     [[31, 115], [49], [55357, 56832], [65281]] \<and>
   code_points [55357, 56832] = [128512] \<and> code_points [65281] = [65281] \<and>
   \<not> increasing_by_code_points (dictionary (wbwtCompress [65281, 32, 55357, 56832]))"
  by (simp add: astral_dictionary increasing_by_code_points_def utf8_eval)

text \<open>
  C4, amended. The dictionary of \<open>wbwtCompress\<close> is the sorted list of the set of the
  normalized tokens, strictly increasing in the lexicographic order of the code units
  and so without duplicates; and \<open>tokensToIds\<close> gives every token its position in that
  list plus one, whatever the order in which the tokens were first seen (for a token
  array below the maximal array length \<open>2 ^ 32\<close>).
\<close>

theorem dictionary_by_code_units:
  "dictionary (wbwtCompress t) = sorted_list_of_set (set (normalizeTokens (tokenize t))) \<and>
   increasing_by_code_units (dictionary (wbwtCompress t)) \<and>
   distinct (dictionary (wbwtCompress t)) \<and>
   (length tokens < 2 ^ 32 \<longrightarrow>
      tokensToIds tokens =
        (map (\<lambda>tok. index_of (sorted_list_of_set (set tokens)) tok + 1) tokens,
         sorted_list_of_set (set tokens)))"
proof -
  have "sorted_wrt (<) (dictionary (wbwtCompress t))"
    by (simp add: compress_dictionary)
  then have "sorted_wrt lex_less (dictionary (wbwtCompress t))"
    by (simp add: lex_less_iff [abs_def])
  then show ?thesis
    by (simp add: compress_dictionary tokensToIds_spec increasing_by_code_units_def)
qed

lemma ba_tokens: "normalizeTokens (tokenize [98, 32, 97]) = [[98], [31, 115], [49], [97]]"
  by (simp add: tok_eval norm_eval)

lemma ba_ids:
  "tokensToIds [[98], [31, 115], [49], [97]] = ([4, 1, 2, 3], [[31, 115], [49], [97], [98]])"
  by (simp add: tokensToIds_def ta_eval)

lemma ba_dictionary: "dictionary (wbwtCompress [98, 32, 97]) = [[31, 115], [49], [97], [98]]"
  by (rule compress_dictionary_stages [OF ba_tokens _ ba_ids]) simp

theorem dictionary_by_code_units_witness:
  "length [[98], [31, 115], [49], [97 :: nat]] < 2 ^ 32 \<and>
   increasing_by_code_units (dictionary (wbwtCompress [98, 32, 97])) \<and>
   distinct (dictionary (wbwtCompress [98, 32, 97])) \<and>
   dictionary (wbwtCompress [98, 32, 97]) = [[31, 115], [49], [97], [98]] \<and>
   tokensToIds [[98], [31, 115], [49], [97]] =
     (map (\<lambda>tok. index_of (sorted_list_of_set (set [[98], [31, 115], [49], [97 :: nat]])) tok + 1)
        [[98], [31, 115], [49], [97]],
      sorted_list_of_set (set [[98], [31, 115], [49], [97]]))"
proof -
  have le: "length [[98], [31, 115], [49], [97 :: nat]] < 2 ^ 32" by simp
  from dictionary_by_code_units [of "[98, 32, 97]" "[[98], [31, 115], [49], [97]]"] le ba_dictionary
  show ?thesis by blast
qed

subsection \<open>The three case forms of one word\<close>

lemma three_forms_tokens:
  "normalizeTokens (tokenize [72, 101, 108, 108, 111, 32, 72, 69, 76, 76, 79, 32,
                              104, 101, 108, 108, 111, 10]) =
     [[31, 99], [104, 101, 108, 108, 111], [31, 115], [49], [31, 117], [104, 101, 108, 108, 111],
      [31, 115], [49], [104, 101, 108, 108, 111], [31, 110], [49]]"
  by (simp add: tok_eval norm_eval)

lemma three_forms_ids:
  "tokensToIds
     [[31, 99], [104, 101, 108, 108, 111], [31, 115], [49], [31, 117], [104, 101, 108, 108, 111],
      [31, 115], [49], [104, 101, 108, 108, 111], [31, 110], [49]] =
     ([1, 6, 3, 5, 4, 6, 3, 5, 6, 2, 5],
      [[31, 99], [31, 110], [31, 115], [31, 117], [49], [104, 101, 108, 108, 111]])"
  by (simp add: tokensToIds_def ta_eval)

lemma three_forms_dictionary:
  "dictionary (wbwtCompress [72, 101, 108, 108, 111, 32, 72, 69, 76, 76, 79, 32,
                             104, 101, 108, 108, 111, 10]) =
     [[31, 99], [31, 110], [31, 115], [31, 117], [49], [104, 101, 108, 108, 111]]"
  by (rule compress_dictionary_stages [OF three_forms_tokens _ three_forms_ids]) simp

text \<open>
  C6, as stated, fails on the dictionary: the two spaces of the input put the space
  marker into it, which the five entries of the claim leave out.
\<close>

theorem three_case_forms_dictionary_counterexample:
  "set (dictionary (wbwtCompress [72, 101, 108, 108, 111, 32, 72, 69, 76, 76, 79, 32,
                                  104, 101, 108, 108, 111, 10])) \<noteq>
     {[31, 99], [31, 110], [31, 117], [49], [104, 101, 108, 108, 111]}"
proof
  assume eq: "set (dictionary (wbwtCompress [72, 101, 108, 108, 111, 32, 72, 69, 76, 76, 79, 32,
                                             104, 101, 108, 108, 111, 10])) =
                {[31, 99], [31, 110], [31, 117], [49], [104, 101, 108, 108, 111]}"
  have "[31, 115] \<in> set (dictionary (wbwtCompress [72, 101, 108, 108, 111, 32, 72, 69, 76, 76, 79,
                                                   32, 104, 101, 108, 108, 111, 10]))"
    by (simp add: three_forms_dictionary)
  then have "[31, 115] \<in> {[31, 99], [31, 110], [31, 117], [49], [104, 101, 108, 108, 111 :: nat]}"
    by (simp only: eq)
  then show False by simp
qed

text \<open>
  C6, amended. For the input \<open>Hello HELLO hello\<close> followed by a newline the dictionary has
  six entries: the markers of title case, newline, space and upper case, the run length
  \<open>1\<close> and the single word \<open>hello\<close>, onto which the three case forms collapse.
\<close>

theorem three_case_forms_dictionary:
  "dictionary (wbwtCompress [72, 101, 108, 108, 111, 32, 72, 69, 76, 76, 79, 32,
                             104, 101, 108, 108, 111, 10]) =
     [[31, 99], [31, 110], [31, 115], [31, 117], [49], [104, 101, 108, 108, 111]]"
  by (rule three_forms_dictionary)

subsection \<open>The empty text\<close>

lemma empty_compress: "wbwtCompress [] = \<lparr>dictionary = [], primaryIndex = 0, mtf = []\<rparr>"
  by (simp add: wbwtCompress_def tokenize_def)

lemma empty_serialize:
  "serializeWBWT \<lparr>dictionary = [], primaryIndex = 0, mtf = []\<rparr> =
     Some [84, 87, 66, 87, 4, 0, 0, 0, 0, 0, 0, 0]"
  by (simp add: serializeWBWT_def mtfToSymbols_def entropyEncodeSymbols_def bits_eval frame_eval)

lemma empty_deserialize:
  "deserializeWBWT e [84, 87, 66, 87, 4, 0, 0, 0, 0, 0, 0, 0] =
     Some (Inr \<lparr>dictionary = [], primaryIndex = 0, mtf = []\<rparr>)"
  by (simp add: deserializeWBWT_def read_mtf_def entropyDecodeSymbols_def symbolsToMtf_def
      engine_eval zero_fill.simps bits_eval frame_eval at_def)

text \<open>
  C7, as stated, fails on the size: the frame of the empty text has 12 bytes, four of
  magic, four of version and four varints of one byte each, not 14.
\<close>

theorem empty_text_frame_counterexample:
  "serializeWBWT (wbwtCompress []) = Some [84, 87, 66, 87, 4, 0, 0, 0, 0, 0, 0, 0] \<and>
   length [84, 87, 66, 87, 4, 0, 0, 0, 0, 0, 0, 0 :: nat] \<noteq> 14"
  by (simp add: empty_compress empty_serialize)

text \<open>
  C7, amended. \<open>wbwtCompress\<close> of the empty text has an empty dictionary and an empty
  \<open>mtf\<close>; \<open>serializeWBWT\<close> makes exactly 12 bytes of it (magic, version 4 and four
  varint zeros); \<open>deserializeWBWT\<close> of these bytes returns the same payload, and
  \<open>wbwtDecompress\<close> of it the empty text, on every engine.
\<close>

theorem empty_text_frame:
  "wbwtCompress [] = \<lparr>dictionary = [], primaryIndex = 0, mtf = []\<rparr> \<and>
   serializeWBWT (wbwtCompress []) = Some [84, 87, 66, 87, 4, 0, 0, 0, 0, 0, 0, 0] \<and>
   length [84, 87, 66, 87, 4, 0, 0, 0, 0, 0, 0, 0 :: nat] = 12 \<and>
   deserializeWBWT e [84, 87, 66, 87, 4, 0, 0, 0, 0, 0, 0, 0] = Some (Inr (wbwtCompress [])) \<and>
   wbwtDecompress ops (Some (wbwtCompress [])) = Inr []"
  by (simp add: empty_compress empty_serialize empty_deserialize wbwtDecompress_def)

subsection \<open>What the container rejects\<close>

lemma truncated_header_accepted:
  "deserializeWBWT e [84, 87, 66, 87, 4] =
     Some (Inr \<lparr>dictionary = [], primaryIndex = 0, mtf = []\<rparr>)"
  by (simp add: deserializeWBWT_def read_mtf_def entropyDecodeSymbols_def symbolsToMtf_def
      engine_eval zero_fill.simps bits_eval frame_eval at_def)

lemma long_varint_accepted:
  "deserializeWBWT e [84, 87, 66, 87, 4, 0, 0, 0, 128, 128, 128, 128, 128, 128, 128, 128, 128, 128,
                      0, 0, 0, 0] =
     Some (Inr \<lparr>dictionary = [], primaryIndex = 0, mtf = []\<rparr>)"
  by (simp add: deserializeWBWT_def read_mtf_def entropyDecodeSymbols_def symbolsToMtf_def
      engine_eval zero_fill.simps bits_eval frame_eval at_def)

text \<open>Whatever is thrown after the header has been accepted is a RangeError.\<close>

lemma new_Uint8Array_throws: "new_Uint8Array e n = Inl err \<Longrightarrow> err = RangeError"
  by (simp add: new_Uint8Array_def split: if_splits)

lemma new_Uint32Array_throws: "new_Uint32Array e n = Inl err \<Longrightarrow> err = RangeError"
  by (simp add: new_Uint32Array_def split: if_splits)

lemma new_FenwickTree_throws: "new_FenwickTree e n = Inl err \<Longrightarrow> err = RangeError"
  by (auto simp: new_FenwickTree_def split: sum.splits dest: new_Uint32Array_throws)

lemma read_front_coded_throws:
  "read_front_coded e n bs offset prevBytes = Inl err \<Longrightarrow> err = RangeError"
proof (induction n arbitrary: offset prevBytes)
  case 0
  then show ?case by simp
next
  case (Suc n)
  then show ?case
    by (auto simp: Let_def split: sum.splits dest: new_Uint8Array_throws)
qed

lemma entropyDecodeSymbols_throws:
  "entropyDecodeSymbols e bs symbolCount alphabetSize = Some (Inl err) \<Longrightarrow> err = RangeError"
  by (auto simp: entropyDecodeSymbols_def split: if_splits sum.splits option.splits
      dest: new_Uint32Array_throws new_FenwickTree_throws)

lemma entropyDecodeBytes_throws:
  "entropyDecodeBytes e bs outputLength = Some (Inl err) \<Longrightarrow> err = RangeError"
  by (auto simp: entropyDecodeBytes_def split: if_splits sum.splits option.splits
      dest: new_Uint8Array_throws new_FenwickTree_throws)

lemma symbolsToMtf_throws: "symbolsToMtf e symbols tokenCount = Inl err \<Longrightarrow> err = RangeError"
  by (auto simp: symbolsToMtf_def split: sum.splits dest: new_Uint32Array_throws)

lemma decodeMtfRle_throws:
  "decodeMtfRle e bs offset tokenCount = Some (Inl err) \<Longrightarrow> err = RangeError"
  by (auto simp: decodeMtfRle_def split: sum.splits dest: new_Uint32Array_throws)

lemma read_mtf_throws:
  "read_mtf e version bs offset dictCount tokenCount symbolCount = Some (Inl err) \<Longrightarrow>
     err = RangeError"
  by (auto simp: read_mtf_def Let_def split: if_splits sum.splits option.splits
      dest: entropyDecodeSymbols_throws entropyDecodeBytes_throws symbolsToMtf_throws
        decodeMtfRle_throws)

lemma deserialize_cases:
  "deserializeWBWT e bs = Some (Inl InvalidHeader) \<and> readUint32LE bs 0 \<noteq> WBWT_MAGIC \<or>
   deserializeWBWT e bs = Some (Inl UnsupportedVersion) \<and> readUint32LE bs 0 = WBWT_MAGIC \<and>
     readUint32LE bs 4 \<notin> {2, 3, 4} \<or>
   (\<forall>err. deserializeWBWT e bs = Some (Inl err) \<longrightarrow> err = RangeError) \<and>
     readUint32LE bs 0 = WBWT_MAGIC \<and> readUint32LE bs 4 \<in> {2, 3, 4}"
proof (cases "readUint32LE bs 0 = WBWT_MAGIC")
  case False
  then show ?thesis by (simp add: deserializeWBWT_def)
next
  case True
  note magic = this
  show ?thesis
  proof (cases "readUint32LE bs 4 \<in> {2, 3, 4}")
    case False
    with magic show ?thesis by (simp add: deserializeWBWT_def WBWT_VERSION_def Let_def)
  next
    case True
    with magic have "\<forall>err. deserializeWBWT e bs = Some (Inl err) \<longrightarrow> err = RangeError"
      by (auto simp: deserializeWBWT_def Let_def WBWT_VERSION_def
          split: if_splits sum.splits option.splits
          dest: read_front_coded_throws read_mtf_throws)
    with magic True show ?thesis by simp
  qed
qed

lemma byte_high_bits: "b < 256 \<Longrightarrow> 8 \<le> n \<Longrightarrow> \<not> bit (b :: nat) n"
proof -
  assume b: "b < 256" and n: "8 \<le> n"
  have "(2::nat) ^ 8 \<le> 2 ^ n" using n by (intro power_increasing) simp_all
  with b have "b < 2 ^ n" by simp
  then have "b div 2 ^ n = 0" by simp
  then show ?thesis by (simp add: bit_iff_odd)
qed

lemma byte_or_zero_high_bits:
  assumes "\<forall>b \<in> set bs. b < 256" and "8 \<le> n"
  shows "\<not> bit (byte_or_zero bs i) n"
proof (cases "i < length bs")
  case True
  with assms(1) have "bs ! i < 256" by simp
  then have "\<not> bit (bs ! i) n" using assms(2) by (rule byte_high_bits)
  with True show ?thesis by (simp add: byte_or_zero_def at_def bit_simps)
next
  case False
  then show ?thesis by (simp add: byte_or_zero_def at_def)
qed

lemma short_buffer_magic:
  assumes "length bs < 4" and "\<forall>b \<in> set bs. b < 256"
  shows "readUint32LE bs 0 \<noteq> WBWT_MAGIC"
proof -
  have "byte_or_zero bs 3 = 0" using assms(1) by (simp add: byte_or_zero_def at_def)
  then have "\<not> bit (word_of_nat (readUint32LE bs 0) :: 32 word) 30"
    using byte_or_zero_high_bits [OF assms(2), of 30 0] byte_or_zero_high_bits [OF assms(2), of 22 "Suc 0"]
      byte_or_zero_high_bits [OF assms(2), of 14 "Suc (Suc 0)"]
    by (simp add: readUint32LE_def bit_simps)
  moreover have "bit (word_of_nat WBWT_MAGIC :: 32 word) 30"
    by (simp add: WBWT_MAGIC_def bit_simps)
  ultimately show ?thesis by auto
qed

text \<open>
  C8, as stated, fails. A header cut after the fifth byte, inside the version field, is
  read with the missing bytes as 0, which gives version 4 and four zero counts: the call
  returns the empty payload. A varint of ten continuation bytes is read to its end and
  accepted as well. No array of the two calls has an element, so the engine plays no
  part; the one named here is \<open>buffers_below_4GiB\<close>.
\<close>

theorem deserialize_truncation_counterexample:
  "deserializeWBWT buffers_below_4GiB [84, 87, 66, 87, 4] =
     Some (Inr \<lparr>dictionary = [], primaryIndex = 0, mtf = []\<rparr>) \<and>
   deserializeWBWT buffers_below_4GiB
     [84, 87, 66, 87, 4, 0, 0, 0, 128, 128, 128, 128, 128, 128, 128, 128, 128, 128, 0, 0, 0, 0] =
     Some (Inr \<lparr>dictionary = [], primaryIndex = 0, mtf = []\<rparr>)"
  using truncated_header_accepted [of buffers_below_4GiB]
    long_varint_accepted [of buffers_below_4GiB]
  by simp

text \<open>
  C8, amended. \<open>deserializeWBWT\<close> throws its invalid-header error exactly when the first
  four bytes, read little-endian with missing bytes as 0, are not the magic, and its
  unsupported-version error exactly when they are and the next four bytes are not 2, 3
  or 4. So a wrong magic, a version 1 or 5 and a buffer of fewer than four bytes are
  rejected, and the bare magic is rejected for its version, which reads 0; nothing after
  these eight bytes makes it throw either error, on any engine.
\<close>

theorem deserialize_rejects_bad_header_only:
  "(deserializeWBWT e bs = Some (Inl InvalidHeader) \<longleftrightarrow> readUint32LE bs 0 \<noteq> WBWT_MAGIC) \<and>
   (deserializeWBWT e bs = Some (Inl UnsupportedVersion) \<longleftrightarrow>
      readUint32LE bs 0 = WBWT_MAGIC \<and> readUint32LE bs 4 \<notin> {2, 3, 4}) \<and>
   (length bs < 4 \<and> (\<forall>b \<in> set bs. b < 256) \<longrightarrow>
      deserializeWBWT e bs = Some (Inl InvalidHeader))"
  using deserialize_cases [of e bs] short_buffer_magic [of bs] by auto

theorem deserialize_rejects_bad_header_only_witness:
  "length [84, 87, 66 :: nat] < 4 \<and> list_all (\<lambda>b. b < 256) [84, 87, 66 :: nat] \<and>
   deserializeWBWT buffers_below_4GiB [84, 87, 66] = Some (Inl InvalidHeader) \<and>
   readUint32LE [84, 87, 66, 87, 5, 0, 0, 0] 0 = WBWT_MAGIC \<and>
   readUint32LE [84, 87, 66, 87, 5, 0, 0, 0] 4 \<notin> {2, 3, 4} \<and>
   deserializeWBWT buffers_below_4GiB [84, 87, 66, 87, 5, 0, 0, 0] = Some (Inl UnsupportedVersion) \<and>
   readUint32LE [84, 87, 66, 87, 1, 0, 0, 0] 4 \<notin> {2, 3, 4} \<and>
   deserializeWBWT buffers_below_4GiB [84, 87, 66, 87, 1, 0, 0, 0] = Some (Inl UnsupportedVersion) \<and>
   readUint32LE [85, 87, 66, 87, 4, 0, 0, 0] 0 \<noteq> WBWT_MAGIC \<and>
   deserializeWBWT buffers_below_4GiB [85, 87, 66, 87, 4, 0, 0, 0] = Some (Inl InvalidHeader) \<and>
   readUint32LE [84, 87, 66, 87] 4 \<notin> {2, 3, 4} \<and>
   deserializeWBWT buffers_below_4GiB [84, 87, 66, 87] = Some (Inl UnsupportedVersion)"
  using deserialize_rejects_bad_header_only [of buffers_below_4GiB "[84, 87, 66]"]
    deserialize_rejects_bad_header_only [of buffers_below_4GiB "[84, 87, 66, 87]"]
    deserialize_rejects_bad_header_only [of buffers_below_4GiB "[84, 87, 66, 87, 5, 0, 0, 0]"]
    deserialize_rejects_bad_header_only [of buffers_below_4GiB "[84, 87, 66, 87, 1, 0, 0, 0]"]
    deserialize_rejects_bad_header_only [of buffers_below_4GiB "[85, 87, 66, 87, 4, 0, 0, 0]"]
  by (simp add: bits_eval frame_eval at_def)

subsection \<open>Termination of the legacy decoder\<close>

lemma readVarint_past_end: "length bs \<le> offset \<Longrightarrow> readVarint bs offset = (0, offset + 1)"
  by (simp add: readVarint_def readVarint_loop.simps at_def)

lemma zero_fill_no_run: "zero_fill m index 0 tokenCount = (m, index, 0)"
  by (simp add: zero_fill.simps)

lemma decodeMtfRle_loop_exhausted:
  assumes "decodeMtfRle_loop bs offset tokenCount index m = Some r"
  shows "offset < length bs \<or> tokenCount \<le> index"
proof (rule decodeMtfRle_loop.raw_induct
    [where P = "\<lambda>bs offset tokenCount index m r. offset < length bs \<or> tokenCount \<le> index",
      OF _ assms])
  fix loop :: "bytes \<Rightarrow> nat \<Rightarrow> nat \<Rightarrow> nat \<Rightarrow> nat list \<Rightarrow> (nat list \<times> nat) option"
  fix bs offset tokenCount index m r
  assume IH: "\<And>bs offset tokenCount index m r.
                loop bs offset tokenCount index m = Some r \<Longrightarrow>
                offset < length bs \<or> tokenCount \<le> index"
  assume body:
    "(if index < tokenCount
      then let parsed = readVarint bs offset
           in if fst parsed AND 1 = 0
              then let filled = zero_fill m index (int (drop_bit 1 (fst parsed))) tokenCount
                   in loop bs (snd parsed) tokenCount (fst (snd filled)) (fst filled)
              else loop bs (snd parsed) tokenCount (index + 1)
                     (put m (Some index) (Some (drop_bit 1 (fst parsed))))
      else Some (m, offset)) = Some r"
  show "offset < length bs \<or> tokenCount \<le> index"
  proof (rule ccontr)
    assume "\<not> (offset < length bs \<or> tokenCount \<le> index)"
    then have a: "length bs \<le> offset" "index < tokenCount" by simp_all
    then have rv: "readVarint bs offset = (0, offset + 1)" by (simp add: readVarint_past_end)
    from body a rv have "loop bs (offset + 1) tokenCount index m = Some r"
      by (simp add: zero_fill_no_run)
    from IH [OF this] a show False by simp
  qed
qed

lemma decodeMtfRle_diverges:
  assumes "length bs \<le> offset" and "0 < tokenCount" and "tokenCount \<le> max_uint32_length e"
  shows "decodeMtfRle e bs offset tokenCount = None"
proof (rule ccontr)
  assume "decodeMtfRle e bs offset tokenCount \<noteq> None"
  with assms(3) obtain r where
    "decodeMtfRle_loop bs offset tokenCount 0 (replicate tokenCount 0) = Some r"
    by (auto simp: decodeMtfRle_def new_Uint32Array_def)
  from decodeMtfRle_loop_exhausted [OF this] assms(1,2) show False by simp
qed

lemma decodeMtfRle_one_throws:
  "max_uint32_length e = 0 \<Longrightarrow> decodeMtfRle e bs offset 1 = Some (Inl RangeError)"
  by (simp add: decodeMtfRle_def new_Uint32Array_def)

text \<open>
  C9. The version 2 frame with no dictionary entry, a token count of 1, primary index 0
  and no packed bytes after the header: \<open>decodeMtfRle\<close> creates an array of one element,
  must produce one value and reads past the end, where every varint is 0, a run of no
  zeros; the index never advances and the call does not return. The same holds for the
  version 3 frame that announces a packed length of 0. (An engine that creates no
  \<open>Uint32Array\<close> of one element throws a RangeError before the loop.)
\<close>

theorem deserialize_short_legacy_stream_diverges:
  "deserializeWBWT e [84, 87, 66, 87, 2, 0, 0, 0, 0, 1, 0] =
     (if max_uint32_length e = 0 then Some (Inl RangeError) else None) \<and>
   deserializeWBWT e [84, 87, 66, 87, 3, 0, 0, 0, 0, 1, 0, 0] =
     (if max_uint32_length e = 0 then Some (Inl RangeError) else None)"
proof (cases "max_uint32_length e = 0")
  case True
  have "decodeMtfRle e (drop 11 [84, 87, 66, 87, 2, 0, 0, 0, 0, 1, 0]) 0 1 = Some (Inl RangeError)"
    using True by (rule decodeMtfRle_one_throws)
  then have v2: "deserializeWBWT e [84, 87, 66, 87, 2, 0, 0, 0, 0, 1, 0] = Some (Inl RangeError)"
    by (simp add: deserializeWBWT_def read_mtf_def bits_eval frame_eval at_def)
  have "decodeMtfRle e [] 0 1 = Some (Inl RangeError)"
    using True by (rule decodeMtfRle_one_throws)
  then have v3: "deserializeWBWT e [84, 87, 66, 87, 3, 0, 0, 0, 0, 1, 0, 0] = Some (Inl RangeError)"
    by (simp add: deserializeWBWT_def read_mtf_def entropyDecodeBytes_def engine_eval bits_eval
        frame_eval at_def)
  from True v2 v3 show ?thesis by simp
next
  case False
  then have one: "1 \<le> max_uint32_length e" by simp
  have "decodeMtfRle e (drop 11 [84, 87, 66, 87, 2, 0, 0, 0, 0, 1, 0]) 0 1 = None"
    by (rule decodeMtfRle_diverges [OF _ _ one]) simp_all
  then have v2: "deserializeWBWT e [84, 87, 66, 87, 2, 0, 0, 0, 0, 1, 0] = None"
    by (simp add: deserializeWBWT_def read_mtf_def bits_eval frame_eval at_def)
  have "decodeMtfRle e [] 0 1 = None"
    by (rule decodeMtfRle_diverges [OF _ _ one]) simp_all
  then have v3: "deserializeWBWT e [84, 87, 66, 87, 3, 0, 0, 0, 0, 1, 0, 0] = None"
    by (simp add: deserializeWBWT_def read_mtf_def entropyDecodeBytes_def engine_eval bits_eval
        frame_eval at_def)
  from False v2 v3 show ?thesis by simp
qed

subsection \<open>symbolsToMtf\<close>



lemma padded: "length xs \<le> n \<Longrightarrow> take n (xs @ replicate n (0::nat)) = xs @ replicate (n - length xs) 0"
  by simp
















end
